theory Spec2Isabelle
  imports Complex_Main
begin

section \<open>Text layout of satori: \<^verbatim>\<open>src/text.ts\<close>\<close>

text \<open>
  The module lays out a run of inline text inside a Yoga box. It has three parts that
  share mutable arrays: the scan that computes the parent's minimal width, the
  measurement callback that breaks lines for a candidate width, and the painter that
  replays the recorded line data once the geometry is committed.

  The model starts from the word list: the text transform and the segmentation into
  words (the first ninety lines of the function) call the locale's case conversion and
  the segmenter, which are outside the file. It ends with the calls the painter makes
  to the builders; how their results are concatenated into the returned markup, and the
  debug overlay, are not modelled.

  Numbers are JavaScript doubles in the source. Here a finite number is a \<^typ>\<open>rat\<close>
  (no rounding and no infinities); the values that can be \<^verbatim>\<open>NaN\<close> in the source (what
  Yoga hands over, and what an out-of-range array read produces in arithmetic) have the
  type \<open>jsnum\<close>. Strings are lists of characters; only equality, concatenation and
  the first character are used.
\<close>

subsection \<open>JavaScript values\<close>

datatype jsnum = NaN | Num rat

text \<open>\<^verbatim>\<open>a > b\<close>, \<^verbatim>\<open>a + b\<close>, \<^verbatim>\<open>a - b\<close>, \<^verbatim>\<open>a * b\<close> on numbers: a comparison with
  \<^verbatim>\<open>NaN\<close> is false, arithmetic with \<^verbatim>\<open>NaN\<close> is \<^verbatim>\<open>NaN\<close>.\<close>

fun js_gt :: "jsnum \<Rightarrow> jsnum \<Rightarrow> bool" where
  "js_gt (Num a) (Num b) = (a > b)"
| "js_gt _ _ = False"

fun js_add :: "jsnum \<Rightarrow> jsnum \<Rightarrow> jsnum" where
  "js_add (Num a) (Num b) = Num (a + b)"
| "js_add _ _ = NaN"

fun js_sub :: "jsnum \<Rightarrow> jsnum \<Rightarrow> jsnum" where
  "js_sub (Num a) (Num b) = Num (a - b)"
| "js_sub _ _ = NaN"

fun js_mul :: "jsnum \<Rightarrow> jsnum \<Rightarrow> jsnum" where
  "js_mul (Num a) (Num b) = Num (a * b)"
| "js_mul _ _ = NaN"

text \<open>\<^verbatim>\<open>xs[i]\<close> read as a number: \<^verbatim>\<open>undefined\<close> out of range, which arithmetic and
  comparisons turn into \<^verbatim>\<open>NaN\<close>.\<close>

definition num_at :: "rat list \<Rightarrow> nat \<Rightarrow> jsnum" where
  "num_at xs i = (if i < length xs then Num (xs ! i) else NaN)"

text \<open>\<^verbatim>\<open>xs[i] = v\<close>: JavaScript extends the array, leaving holes, when \<open>i\<close> is past the end.\<close>

definition set_index :: "'a \<Rightarrow> 'a list \<Rightarrow> nat \<Rightarrow> 'a \<Rightarrow> 'a list" where
  "set_index hole xs i v =
     (if i < length xs then xs[i := v] else xs @ replicate (i - length xs) hole @ [v])"

text \<open>A value that is a string or \<^verbatim>\<open>undefined\<close>: what a property read returns.\<close>

datatype jsval = Undefined | Str string

text \<open>\<^verbatim>\<open>s[0]\<close> on a string: its first character, \<^verbatim>\<open>undefined\<close> for the empty string.\<close>

definition char0 :: "string \<Rightarrow> jsval" where
  "char0 s = (case s of [] \<Rightarrow> Undefined | c # _ \<Rightarrow> Str [c])"

text \<open>\<^verbatim>\<open>Array.prototype.includes\<close> on an array of strings: \<^verbatim>\<open>undefined\<close> is no element.\<close>

definition includes_val :: "string list \<Rightarrow> jsval \<Rightarrow> bool" where
  "includes_val xs v = (case v of Undefined \<Rightarrow> False | Str s \<Rightarrow> s \<in> set xs)"

text \<open>\<^verbatim>\<open>String(v)\<close>, the conversion \<^verbatim>\<open>String.prototype.indexOf\<close> applies to its argument.\<close>

definition to_str :: "jsval \<Rightarrow> string" where
  "to_str v = (case v of Undefined \<Rightarrow> ''undefined'' | Str s \<Rightarrow> s)"

text \<open>\<^verbatim>\<open>s.indexOf(t)\<close>: the first position where \<open>t\<close> occurs in \<open>s\<close>, or -1.\<close>

definition indexOf :: "string \<Rightarrow> string \<Rightarrow> int" where
  "indexOf s t =
     (case find (\<lambda>k. take (length t) (drop k s) = t) [0..<Suc (length s)] of
        Some k \<Rightarrow> int k
      | None \<Rightarrow> - 1)"

definition LF :: string where
  "LF = [CHR 0x0A]"

text \<open>The ellipsis glyph U+2026, as its UTF-8 bytes.\<close>

definition ellipsis :: string where
  "ellipsis = [CHR 0xE2, CHR 0x80, CHR 0xA6]"

subsection \<open>Data model\<close>

record InlineTextStyle =
  color :: "string option"

text \<open>\<^verbatim>\<open>class InlineText { content: string; style?: Partial<InlineTextStyle> }\<close>\<close>

record InlineText =
  content :: string
  style :: "InlineTextStyle option"

text \<open>\<^verbatim>\<open>word[0]\<close> where \<open>word\<close> is an \<^verbatim>\<open>InlineText\<close>: the class declares the
  properties \<^verbatim>\<open>content\<close> and \<^verbatim>\<open>style\<close> only, so the read of property \<^verbatim>\<open>0\<close> yields
  \<^verbatim>\<open>undefined\<close>, whatever the content is.\<close>

definition prop0 :: "InlineText \<Rightarrow> jsval" where
  "prop0 word = Undefined"

text \<open>\<^verbatim>\<open>areStylesEqual\<close>\<close>

definition areStylesEqual :: "InlineTextStyle option \<Rightarrow> InlineTextStyle option \<Rightarrow> bool" where
  "areStylesEqual a b =
     (if a = None \<and> b = None then True
      else if a = None \<or> b = None then False
      else color (the a) = color (the b))"

text \<open>
  What the layout reads from its surroundings: the fields of \<^verbatim>\<open>parentStyle\<close> and of the
  layout context it uses, the font engine, and the two imports of \<^verbatim>\<open>./utils\<close> that are
  not part of this file (\<^verbatim>\<open>wordSeparators\<close>, an array of one-character strings, and
  \<^verbatim>\<open>segment(_, 'grapheme')\<close>), taken as parameters. The font engine's answers depend on
  the text only.
\<close>

record Env =
  engine_measure :: "string \<Rightarrow> rat"
  engine_height :: "string \<Rightarrow> rat"
  engine_baseline :: "string \<Rightarrow> rat"
  wordSeparators :: "string list"
  segment_grapheme :: "string \<Rightarrow> string list"
  graphemeImages :: "(string \<rightharpoonup> string) option"
  embedFont :: bool
  fontSize :: rat
  whiteSpace :: string
  wordBreak :: string
  textAlign :: string
  textOverflow :: string
  textDecorationLine :: bool
  parentColor :: "string option"

text \<open>\<^verbatim>\<open>graphemeImages && graphemeImages[c]\<close> as a condition: a non-empty image source.\<close>

definition is_image :: "Env \<Rightarrow> string \<Rightarrow> bool" where
  "is_image env c =
     (case graphemeImages env of
        None \<Rightarrow> False
      | Some g \<Rightarrow> (case g c of None \<Rightarrow> False | Some src \<Rightarrow> src \<noteq> []))"

definition isBreakWord :: "Env \<Rightarrow> bool" where
  "isBreakWord env = (wordBreak env = ''break-word'')"

definition shouldKeepLinebreak :: "Env \<Rightarrow> bool" where
  "shouldKeepLinebreak env = (whiteSpace env \<in> set [''pre'', ''pre-wrap'', ''pre-line''])"

definition shouldCollapseWhitespace :: "Env \<Rightarrow> bool" where
  "shouldCollapseWhitespace env = (whiteSpace env \<notin> set [''pre'', ''pre-wrap''])"

record WordPosition =
  wp_x :: rat
  wp_y :: rat
  wp_width :: rat
  wp_line :: nat
  wp_lineIndex :: int

text \<open>An entry of \<^verbatim>\<open>wordPositionInLayout\<close>: never written, \<^verbatim>\<open>null\<close>, or a position.\<close>

datatype slot = Hole | Null | Pos WordPosition

text \<open>The variables of one \<^verbatim>\<open>buildTextNodes\<close> invocation that the measurement callback
  and the painter share.\<close>

record Shared =
  words :: "InlineText list"
  lineWidths :: "rat list"
  baselines :: "rat list"
  lineSegmentNumber :: "nat list"
  wordPositionInLayout :: "slot list"
  wordWidthCache :: "string \<rightharpoonup> rat"

subsection \<open>The width cache\<close>

fun measure_segments :: "Env \<Rightarrow> string list \<Rightarrow> rat \<Rightarrow> (string \<rightharpoonup> rat) \<Rightarrow> rat \<times> (string \<rightharpoonup> rat)" where
  "measure_segments env [] tot cache = (tot, cache)"
| "measure_segments env (s # segments) tot cache =
     (case cache s of
        Some v \<Rightarrow> measure_segments env segments (tot + v) cache
      | None \<Rightarrow>
          (let width = engine_measure env s
           in measure_segments env segments (tot + width) (cache(s \<mapsto> width))))"

definition measureWithCache :: "Env \<Rightarrow> string list \<Rightarrow> (string \<rightharpoonup> rat) \<Rightarrow> rat \<times> (string \<rightharpoonup> rat)" where
  "measureWithCache env segments cache = measure_segments env segments 0 cache"

subsection \<open>The measurement callback\<close>

text \<open>The callback's local variables, on top of the shared ones. \<open>m_i\<close> is the loop
  index \<^verbatim>\<open>i\<close>, \<open>currentWidth\<close> is \<^verbatim>\<open>_currentWidth\<close>, \<open>m_lines\<close> and \<open>m_height\<close> are
  \<^verbatim>\<open>lines\<close> and \<^verbatim>\<open>height\<close>.\<close>

record MeasureState = Shared +
  m_i :: nat
  m_lines :: nat
  remainingSpace :: string
  remainingSpaceWidth :: rat
  currentWidth :: rat
  maxWidth :: rat
  lineIndex :: int
  m_height :: rat
  currentLineHeight :: rat
  currentBaselineOffset :: rat

text \<open>The callback's first statements: fresh locals, \<^verbatim>\<open>lineWidths = []\<close> and
  \<^verbatim>\<open>lineSegmentNumber = [0]\<close>. Nothing else of the shared state is reset.\<close>

definition measure_init :: "Shared \<Rightarrow> MeasureState" where
  "measure_init sh =
     \<lparr> words = words sh, lineWidths = [], baselines = baselines sh,
       lineSegmentNumber = [0], wordPositionInLayout = wordPositionInLayout sh,
       wordWidthCache = wordWidthCache sh,
       m_i = 0, m_lines = 0, remainingSpace = [], remainingSpaceWidth = 0,
       currentWidth = 0, maxWidth = 0, lineIndex = - 1, m_height = 0,
       currentLineHeight = 0, currentBaselineOffset = 0 \<rparr>"

text \<open>The whitespace branch (source lines 292-297).\<close>

definition step_space :: "Env \<Rightarrow> MeasureState \<Rightarrow> MeasureState" where
  "step_space env st =
     (let rs = (if remainingSpace st = [] then '' '' else remainingSpace st);
          (rsw, cache) = measureWithCache env [rs] (wordWidthCache st)
      in st\<lparr> remainingSpace := rs, remainingSpaceWidth := rsw, wordWidthCache := cache,
             wordPositionInLayout := set_index Hole (wordPositionInLayout st) (m_i st) Null \<rparr>)"

text \<open>The width \<^verbatim>\<open>w\<close> of a visible token (source lines 299-303).\<close>

definition token_width :: "Env \<Rightarrow> bool \<Rightarrow> InlineText \<Rightarrow> (string \<rightharpoonup> rat) \<Rightarrow> rat \<times> (string \<rightharpoonup> rat)" where
  "token_width env forceBreak word cache =
     (if forceBreak then (0, cache)
      else if is_image env (content word) then (fontSize env, cache)
      else measureWithCache env [content word] cache)"

text \<open>\<^verbatim>\<open>lineSegmentNumber[lineSegmentNumber.length - 1]++\<close>; the array is never empty
  here, as the callback starts it at \<^verbatim>\<open>[0]\<close> and only pushes.\<close>

definition incr_last :: "nat list \<Rightarrow> nat list" where
  "incr_last xs = (if xs = [] then xs else butlast xs @ [last xs + 1])"

text \<open>The statements both "start a new line" blocks share, up to the values the
  new line starts with: width \<open>w0\<close>, height \<open>h0\<close>, baseline \<open>b0\<close>.\<close>

definition new_line :: "rat \<Rightarrow> rat \<Rightarrow> rat \<Rightarrow> MeasureState \<Rightarrow> MeasureState" where
  "new_line w0 h0 b0 st =
     st\<lparr> lineWidths := lineWidths st @ [currentWidth st],
         baselines := baselines st @ [currentBaselineOffset st],
         m_lines := m_lines st + 1,
         m_height := m_height st + currentLineHeight st,
         currentWidth := w0,
         currentLineHeight := h0,
         currentBaselineOffset := b0,
         lineSegmentNumber := lineSegmentNumber st @ [1],
         lineIndex := - 1 \<rparr>"

text \<open>The break-word branch (source lines 335-353): the token is replaced in place by
  an empty placeholder followed by its graphemes, the open line is flushed when it has
  a positive width, and the loop continues, so the index moves past the placeholder.\<close>

definition step_break_word :: "Env \<Rightarrow> InlineText \<Rightarrow> MeasureState \<Rightarrow> MeasureState" where
  "step_break_word env word st =
     (let chars = [] # segment_grapheme env (content word);
          st1 = st\<lparr> words := take (m_i st) (words st)
                          @ map (\<lambda>c. \<lparr> content = c, style = style word \<rparr>) chars
                          @ drop (m_i st + 1) (words st) \<rparr>
      in if currentWidth st1 > 0 then new_line 0 0 0 st1 else st1)"

text \<open>The end of the visible branch (source lines 387-401).\<close>

definition step_record :: "rat \<Rightarrow> bool \<Rightarrow> MeasureState \<Rightarrow> MeasureState" where
  "step_record w allowedToJustify st =
     (let li = (if allowedToJustify then lineIndex st + 1 else lineIndex st);
          mw = max (maxWidth st) (currentWidth st)
      in st\<lparr> remainingSpace := [], remainingSpaceWidth := 0, lineIndex := li, maxWidth := mw,
             wordPositionInLayout :=
               set_index Hole (wordPositionInLayout st) (m_i st)
                 (Pos \<lparr> wp_x = currentWidth st - w, wp_y = m_height st, wp_width = w,
                        wp_line = m_lines st, wp_lineIndex = li \<rparr>) \<rparr>)"

text \<open>\<^verbatim>\<open>Math.max(maxWidth, width)\<close>. It is evaluated only after \<^verbatim>\<open>willWrap\<close>, which a
  \<^verbatim>\<open>NaN\<close> width makes false.\<close>

definition max_with :: "rat \<Rightarrow> jsnum \<Rightarrow> rat" where
  "max_with m width = (case width of Num v \<Rightarrow> max m v | NaN \<Rightarrow> m)"

text \<open>The token starts a new line (source lines 355-372, then 387-401).\<close>

definition step_wrap ::
  "Env \<Rightarrow> jsnum \<Rightarrow> bool \<Rightarrow> InlineText \<Rightarrow> rat \<Rightarrow> bool \<Rightarrow> MeasureState \<Rightarrow> MeasureState" where
  "step_wrap env width forceBreak word w allowedToJustify st =
     (let st2 = new_line w
                  (if w \<noteq> 0 then engine_height env (content word) else 0)
                  (if w \<noteq> 0 then engine_baseline env (content word) else 0) st;
          st3 = (if \<not> forceBreak then st2\<lparr> maxWidth := max_with (maxWidth st2) width \<rparr>
                 else st2)
      in step_record w allowedToJustify st3)"

text \<open>The token fits into the current line (source lines 373-385, then 387-401).\<close>

definition step_fit :: "Env \<Rightarrow> InlineText \<Rightarrow> rat \<Rightarrow> bool \<Rightarrow> MeasureState \<Rightarrow> MeasureState" where
  "step_fit env word w allowedToJustify st =
     (let glyphHeight = engine_height env (content word);
          st2 = st\<lparr> currentWidth := currentWidth st + (remainingSpaceWidth st + w) \<rparr>;
          st3 = (if glyphHeight > currentLineHeight st2
                 then st2\<lparr> currentLineHeight := glyphHeight,
                           currentBaselineOffset := engine_baseline env (content word) \<rparr>
                 else st2);
          st4 = (if allowedToJustify
                 then st3\<lparr> lineSegmentNumber := incr_last (lineSegmentNumber st3) \<rparr>
                 else st3)
      in step_record w allowedToJustify st4)"

text \<open>The statements of the visible branch before the decisions (source lines
  299-315): the token's width, the line height of a forced break on an empty line, and
  the pending space dropped at the start of a line.\<close>

definition step_prepare :: "Env \<Rightarrow> bool \<Rightarrow> InlineText \<Rightarrow> MeasureState \<Rightarrow> rat \<times> MeasureState" where
  "step_prepare env forceBreak word st0 =
     (let (w, cache) = token_width env forceBreak word (wordWidthCache st0);
          st1 = st0\<lparr> wordWidthCache := cache,
                     currentLineHeight :=
                       (if forceBreak \<and> currentLineHeight st0 = 0
                        then engine_height env (content word) else currentLineHeight st0) \<rparr>
      in (w, if currentWidth st1 = 0
             then st1\<lparr> remainingSpace := [], remainingSpaceWidth := 0 \<rparr> else st1))"

text \<open>The decisions of the visible branch (source lines 317-385).\<close>

definition step_place ::
  "Env \<Rightarrow> jsnum \<Rightarrow> bool \<Rightarrow> InlineText \<Rightarrow> rat \<Rightarrow> MeasureState \<Rightarrow> MeasureState" where
  "step_place env width forceBreak word w st =
     (let allowedToPutAtBeginning =
            (remainingSpaceWidth st \<noteq> 0 \<or> indexOf '',.!?:-@)>]}%#'' (to_str (prop0 word)) < 0);
          allowedToJustify = (currentWidth st = 0 \<or> remainingSpaceWidth st \<noteq> 0);
          willWrap =
            (m_i st \<noteq> 0 \<and> allowedToPutAtBeginning
             \<and> js_gt (Num (currentWidth st + remainingSpaceWidth st + w)) width
             \<and> whiteSpace env \<noteq> ''nowrap'' \<and> whiteSpace env \<noteq> ''pre'');
          needToBreakWord =
            (isBreakWord env \<and> js_gt (Num w) width
             \<and> (currentWidth st = 0 \<or> willWrap \<or> forceBreak))
      in if needToBreakWord then step_break_word env word st
         else if forceBreak \<or> willWrap then step_wrap env width forceBreak word w allowedToJustify st
         else step_fit env word w allowedToJustify st)"

text \<open>The visible branch (source lines 299-401).\<close>

definition step_visible :: "Env \<Rightarrow> jsnum \<Rightarrow> bool \<Rightarrow> InlineText \<Rightarrow> MeasureState \<Rightarrow> MeasureState" where
  "step_visible env width forceBreak word st0 =
     (let (w, st) = step_prepare env forceBreak word st0
      in step_place env width forceBreak word w st)"

text \<open>One pass of the \<^verbatim>\<open>for\<close> loop's body and its \<^verbatim>\<open>i++\<close> (which \<^verbatim>\<open>continue\<close> runs
  too).\<close>

definition measure_step :: "Env \<Rightarrow> jsnum \<Rightarrow> MeasureState \<Rightarrow> MeasureState" where
  "measure_step env width st =
     (let word = words st ! m_i st;
          forceBreak = (shouldKeepLinebreak env \<and> content word = LF);
          st' = (if shouldCollapseWhitespace env
                    \<and> includes_val (wordSeparators env) (prop0 word) \<and> \<not> forceBreak
                 then step_space env st
                 else step_visible env width forceBreak word st)
      in st'\<lparr> m_i := m_i st' + 1 \<rparr>)"

text \<open>The loop \<^verbatim>\<open>for (let i = 0; i < words.length; i++)\<close>. The word list can grow
  while it runs, so the loop need not end: not returning is \<open>None\<close>.\<close>

partial_function (option) measure_loop :: "Env \<Rightarrow> jsnum \<Rightarrow> MeasureState \<Rightarrow> MeasureState option" where
  "measure_loop env width st =
     (if m_i st < length (words st) then measure_loop env width (measure_step env width st)
      else Some st)"

declare measure_loop.simps [code]

text \<open>The statements after the loop (source lines 404-409).\<close>

definition measure_finish :: "MeasureState \<Rightarrow> MeasureState" where
  "measure_finish st =
     (if currentWidth st \<noteq> 0
      then st\<lparr> m_lines := m_lines st + 1,
               lineWidths := lineWidths st @ [currentWidth st],
               baselines := baselines st @ [currentBaselineOffset st],
               m_height := m_height st + currentLineHeight st \<rparr>
      else st)"

text \<open>The callback: the final local state, from which the returned
  \<^verbatim>\<open>{ width: maxWidth, height }\<close> and the shared variables are read.\<close>

definition measure_run :: "Env \<Rightarrow> jsnum \<Rightarrow> Shared \<Rightarrow> MeasureState option" where
  "measure_run env width sh = map_option measure_finish (measure_loop env width (measure_init sh))"

definition measureFunc :: "Env \<Rightarrow> jsnum \<Rightarrow> Shared \<Rightarrow> ((rat \<times> rat) \<times> Shared) option" where
  "measureFunc env width sh =
     map_option (\<lambda>st. ((maxWidth st, m_height st), Shared.truncate st)) (measure_run env width sh)"

subsection \<open>The minimal width of the parent\<close>

datatype error = TypeError

text \<open>\<^verbatim>\<open>v.content\<close>: the read throws a \<^verbatim>\<open>TypeError\<close> when \<open>v\<close> is \<^verbatim>\<open>undefined\<close>; a
  string primitive has no such property.\<close>

definition read_content :: "jsval \<Rightarrow> error + jsval" where
  "read_content v = (case v of Undefined \<Rightarrow> Inl TypeError | Str s \<Rightarrow> Inr Undefined)"

record ScanState =
  minWidth :: rat
  remainingSegment :: "string list"
  extraWidth :: rat
  scan_cache :: "string \<rightharpoonup> rat"

text \<open>\<^verbatim>\<open>breakSegment\<close> for one word (source lines 196-208).\<close>

definition breakSegment :: "Env \<Rightarrow> InlineText \<Rightarrow> error + bool" where
  "breakSegment env word =
     (if whiteSpace env = ''pre'' then
        (case read_content (prop0 word) of
           Inl e \<Rightarrow> Inl e
         | Inr c \<Rightarrow> Inr (c = Str LF))
      else if whiteSpace env \<noteq> ''nowrap'' then
        Inr (is_image env (content word)
             \<or> includes_val (wordSeparators env) (char0 (content word)))
      else Inr False)"

text \<open>The rest of the loop body (source lines 210-228).\<close>

definition scan_word :: "Env \<Rightarrow> InlineText \<Rightarrow> bool \<Rightarrow> ScanState \<Rightarrow> ScanState" where
  "scan_word env word brk st =
     (if \<not> brk then
        (if \<not> includes_val (wordSeparators env) (char0 (content word))
            \<or> remainingSegment st = []
         then st\<lparr> remainingSegment :=
                   remainingSegment st @ [if content word = LF then '' '' else content word] \<rparr>
         else st)
      else
        (let (m, cache) = measureWithCache env (remainingSegment st) (scan_cache st);
             st1 = st\<lparr> scan_cache := cache \<rparr>;
             st2 = (if whiteSpace env = ''nowrap''
                    then st1\<lparr> extraWidth := extraWidth st1 + (m + fontSize env) \<rparr>
                    else
                      (let st3 = st1\<lparr> minWidth := max (minWidth st1) m \<rparr>
                       in if is_image env (content word)
                          then st3\<lparr> minWidth := max (minWidth st3) (fontSize env) \<rparr>
                          else st3))
         in st2\<lparr> remainingSegment := [] \<rparr>))"

fun scan_words :: "Env \<Rightarrow> InlineText list \<Rightarrow> ScanState \<Rightarrow> error + ScanState" where
  "scan_words env [] st = Inr st"
| "scan_words env (word # ws) st =
     (case breakSegment env word of
        Inl e \<Rightarrow> Inl e
      | Inr brk \<Rightarrow> scan_words env ws (scan_word env word brk st))"

text \<open>The scan and the statement after it (source lines 192-230): the computed
  \<^verbatim>\<open>minWidth\<close> and the width cache, or the exception.\<close>

definition min_width_scan :: "Env \<Rightarrow> InlineText list \<Rightarrow> (string \<rightharpoonup> rat) \<Rightarrow> error + rat \<times> (string \<rightharpoonup> rat)" where
  "min_width_scan env ws cache =
     (case scan_words env ws
             \<lparr> minWidth = 0, remainingSegment = [], extraWidth = 0, scan_cache = cache \<rparr> of
        Inl e \<Rightarrow> Inl e
      | Inr st \<Rightarrow>
          (let (m, cache') = measureWithCache env (remainingSegment st) (scan_cache st)
           in Inr (max (minWidth st) (m + extraWidth st), cache')))"

text \<open>A Yoga value \<^verbatim>\<open>{ unit, value }\<close>; unit 1 is \<^verbatim>\<open>UNIT_POINT\<close>, and an unset
  constraint has the value \<^verbatim>\<open>NaN\<close>.\<close>

record YGValue =
  yg_unit :: nat
  yg_value :: jsnum

record Parent =
  p_width :: YGValue
  p_minWidth :: YGValue
  p_maxWidth :: YGValue

definition isNaN :: "jsnum \<Rightarrow> bool" where
  "isNaN v = (v = NaN)"

text \<open>Source lines 231-248: the argument of \<^verbatim>\<open>parent.setMinWidth\<close> when the call is
  made, \<open>None\<close> when it is not.\<close>

definition setMinWidth_arg :: "Parent \<Rightarrow> rat \<Rightarrow> rat option" where
  "setMinWidth_arg parent mw =
     (let currentMinWidth = p_minWidth parent;
          currentMaxWidth = p_maxWidth parent;
          currentWidth = p_width parent
      in if isNaN (yg_value currentWidth)
            \<and> (isNaN (yg_value currentMinWidth)
                \<or> (yg_unit currentMinWidth = 1 \<and> js_gt (yg_value currentMinWidth) (Num mw)))
         then
           (case yg_value currentMaxWidth of
              NaN \<Rightarrow> Some mw
            | Num m \<Rightarrow> if yg_unit currentMaxWidth = 1 then Some (min mw m) else Some mw)
         else None)"

text \<open>The parent after these lines: \<^verbatim>\<open>setMinWidth(v)\<close> stores \<open>v\<close> as a point length.\<close>

definition apply_min_width :: "Parent \<Rightarrow> rat \<Rightarrow> Parent" where
  "apply_min_width parent mw =
     (case setMinWidth_arg parent mw of
        None \<Rightarrow> parent
      | Some v \<Rightarrow> parent\<lparr> p_minWidth := \<lparr> yg_unit = 1, yg_value = Num v \<rparr> \<rparr>)"

text \<open>The condition as the specification words it: no explicit width is set and either
  no inherited min-width exists or the inherited min-width is a literal length smaller
  than the computed value.\<close>

definition spec_min_width_applies :: "Parent \<Rightarrow> rat \<Rightarrow> bool" where
  "spec_min_width_applies parent mw =
     (isNaN (yg_value (p_width parent))
      \<and> (isNaN (yg_value (p_minWidth parent))
          \<or> (yg_unit (p_minWidth parent) = 1 \<and> js_gt (Num mw) (yg_value (p_minWidth parent)))))"

subsection \<open>The painter\<close>

text \<open>The committed geometry the painter reads: \<open>g_left\<close> and \<open>g_top\<close> are the
  source's \<^verbatim>\<open>left = x + containerLeft\<close> and \<^verbatim>\<open>top = y + containerTop\<close>.\<close>

record Geometry =
  g_left :: rat
  g_top :: rat
  containerWidth :: rat
  parentContainerInnerWidth :: rat

text \<open>\<^verbatim>\<open>decorationLines[line] = [leftOffset, width, emitted]\<close>\<close>

record DecorationLine =
  d_left :: jsnum
  d_width :: jsnum
  d_emitted :: bool

text \<open>
  The builders the painter calls (\<^verbatim>\<open>engine.getSVG\<close>, \<^verbatim>\<open>text\<close>, \<^verbatim>\<open>decoration\<close>) are
  outside this file, and what they return is only concatenated into the result. The
  model records each call with the arguments that depend on the layout, in the order
  the calls are made, together with the index of the token whose pass made it.
\<close>

record PathCall =
  s_index :: nat
  s_content :: string
  s_left :: jsnum
  s_top :: jsnum

record TextCall =
  t_index :: nat
  t_content :: string
  t_left :: jsnum
  t_top :: jsnum
  t_width :: rat
  t_height :: rat
  t_image :: "string option"
  t_color :: "string option"

record DecorationCall =
  dc_index :: nat
  dc_left :: jsnum
  dc_top :: rat
  dc_width :: jsnum
  dc_ascender :: rat

datatype event = GetSVG PathCall | TextElem TextCall | Decoration DecorationCall

record PaintState =
  skippedLine :: int
  decorationLines :: "nat \<rightharpoonup> DecorationLine"
  wordBuffer :: "InlineText option"
  bufferedOffset :: jsnum
  paint_cache :: "string \<rightharpoonup> rat"
  events :: "event list"

text \<open>\<^verbatim>\<open>xs[i]\<close> on \<^verbatim>\<open>wordPositionInLayout\<close>: \<^verbatim>\<open>undefined\<close> past the end, as for a hole.\<close>

definition slot_at :: "slot list \<Rightarrow> nat \<Rightarrow> slot" where
  "slot_at xs i = (if i < length xs then xs ! i else Hole)"

text \<open>\<^verbatim>\<open>a / d\<close> for a finite divisor that is not zero: the painter divides by 2 and by
  \<^verbatim>\<open>segments - 1\<close> under the guard \<^verbatim>\<open>segments > 1\<close> only.\<close>

fun js_div :: "jsnum \<Rightarrow> rat \<Rightarrow> jsnum" where
  "js_div (Num a) d = Num (a / d)"
| "js_div NaN d = NaN"

text \<open>String concatenation with an \<^verbatim>\<open>InlineText\<close> object as an operand: the class
  defines neither \<^verbatim>\<open>toString\<close> nor \<^verbatim>\<open>valueOf\<close>, so the object converts to the text that
  \<^verbatim>\<open>Object.prototype.toString\<close> returns.\<close>

definition object_to_str :: "InlineText \<Rightarrow> string" where
  "object_to_str word = ''[object Object]''"

text \<open>The alignment block (source lines 497-516): the token's \<^verbatim>\<open>leftOffset\<close> and
  \<^verbatim>\<open>extendedWidth\<close>.\<close>

definition align_offset :: "Env \<Rightarrow> Geometry \<Rightarrow> Shared \<Rightarrow> WordPosition \<Rightarrow> jsnum \<times> bool" where
  "align_offset env geo sh layout =
     (let line = wp_line layout;
          leftOffset = Num (wp_x layout)
      in if length (lineWidths sh) > 1 then
           (let remainingWidth = js_sub (Num (containerWidth geo)) (num_at (lineWidths sh) line)
            in if textAlign env = ''right'' \<or> textAlign env = ''end'' then
                 (js_add leftOffset remainingWidth, False)
               else if textAlign env = ''center'' then
                 (js_add leftOffset (js_div remainingWidth 2), False)
               else if textAlign env = ''justify'' then
                 (if line < length (lineWidths sh) - 1 then
                    (let gutter =
                           (if line < length (lineSegmentNumber sh)
                               \<and> lineSegmentNumber sh ! line > 1
                            then js_div remainingWidth (of_nat (lineSegmentNumber sh ! line) - 1)
                            else Num 0)
                     in (js_add leftOffset (js_mul gutter (Num (of_int (wp_lineIndex layout)))),
                         True))
                  else (leftOffset, False))
               else (leftOffset, False))
         else (leftOffset, False))"

text \<open>The loop over the graphemes of the token that is cut (source lines 531-550):
  the kept text (\<^verbatim>\<open>subset\<close>, here \<open>kept\<close>), \<^verbatim>\<open>resolvedWidth\<close> and the width cache.
  \<^verbatim>\<open>chars\<close> holds one \<^verbatim>\<open>InlineText\<close> object per grapheme, and \<^verbatim>\<open>subset + char\<close>
  concatenates the object itself, that is, its conversion to a string.\<close>

fun ellipsis_scan ::
  "Env \<Rightarrow> rat \<Rightarrow> rat \<Rightarrow> rat \<Rightarrow> InlineText list \<Rightarrow> string \<Rightarrow> rat \<Rightarrow> (string \<rightharpoonup> rat)
     \<Rightarrow> string \<times> rat \<times> (string \<rightharpoonup> rat)" where
  "ellipsis_scan env x ellipsisWidth inner [] kept resolvedWidth cache =
     (kept, resolvedWidth, cache)"
| "ellipsis_scan env x ellipsisWidth inner (ch # chars) kept resolvedWidth cache =
     (let (m, cache') = measureWithCache env [kept @ object_to_str ch] cache;
          w = x + m
      in if kept \<noteq> [] \<and> w + ellipsisWidth > inner then (kept, resolvedWidth, cache')
         else ellipsis_scan env x ellipsisWidth inner chars (kept @ object_to_str ch) w cache')"

text \<open>The condition under which a token is cut (source lines 525-530).\<close>

definition overflows :: "Env \<Rightarrow> Geometry \<Rightarrow> Shared \<Rightarrow> rat \<Rightarrow> rat \<Rightarrow> WordPosition \<Rightarrow> bool" where
  "overflows env geo sh ellipsisWidth spaceWidth layout =
     (textOverflow env = ''ellipsis''
      \<and> js_gt (num_at (lineWidths sh) (wp_line layout)) (Num (parentContainerInnerWidth geo))
      \<and> wp_x layout + wp_width layout + ellipsisWidth + spaceWidth
          > parentContainerInnerWidth geo)"

text \<open>\<^verbatim>\<open>decorationLines[line][1] = resolvedWidth\<close>; the entry exists, as the statement
  before the ellipsis block creates it.\<close>

definition set_deco_width :: "nat \<Rightarrow> rat \<Rightarrow> (nat \<rightharpoonup> DecorationLine) \<Rightarrow> (nat \<rightharpoonup> DecorationLine)" where
  "set_deco_width line rw decos =
     (case decos line of
        None \<Rightarrow> decos
      | Some d \<Rightarrow> decos(line \<mapsto> d\<lparr> d_width := Num rw \<rparr>))"

text \<open>The ellipsis block (source lines 525-556): the token to draw and the new state.\<close>

definition apply_ellipsis ::
  "Env \<Rightarrow> Geometry \<Rightarrow> Shared \<Rightarrow> rat \<Rightarrow> rat \<Rightarrow> WordPosition \<Rightarrow> InlineText \<Rightarrow> PaintState
     \<Rightarrow> InlineText \<times> PaintState" where
  "apply_ellipsis env geo sh ellipsisWidth spaceWidth layout word pst =
     (if overflows env geo sh ellipsisWidth spaceWidth layout then
        (let (kept, resolvedWidth, cache) =
               ellipsis_scan env (wp_x layout) ellipsisWidth (parentContainerInnerWidth geo)
                 (map (\<lambda>seg. \<lparr> content = seg, style = style word \<rparr>)
                    (segment_grapheme env (content word)))
                 [] 0 (paint_cache pst)
         in (\<lparr> content = kept @ ellipsis, style = style word \<rparr>,
             pst\<lparr> skippedLine := int (wp_line layout),
                  decorationLines :=
                    set_deco_width (wp_line layout) resolvedWidth (decorationLines pst),
                  paint_cache := cache \<rparr>))
      else (word, pst))"

text \<open>The condition of the kerning merge (source lines 569-576), evaluated left to
  right: \<^verbatim>\<open>graphemeImages[...]\<close> is read without the guard the other reads have, and
  throws when \<^verbatim>\<open>graphemeImages\<close> is absent.\<close>

definition merge_condition :: "Env \<Rightarrow> Shared \<Rightarrow> nat \<Rightarrow> InlineText \<Rightarrow> rat \<Rightarrow> error + bool" where
  "merge_condition env sh i word topOffset =
     (if includes_val (wordSeparators env) (Str (content word)) then Inr False
      else if \<not> i + 1 < length (words sh) then Inr False
      else
        (case graphemeImages env of
           None \<Rightarrow> Inl TypeError
         | Some g \<Rightarrow>
             (if (case g (content (words sh ! (i + 1))) of
                    None \<Rightarrow> False | Some src \<Rightarrow> src \<noteq> [])
              then Inr False
              else
                (case slot_at (wordPositionInLayout sh) (i + 1) of
                   Pos nxt \<Rightarrow>
                     Inr (topOffset = wp_y nxt
                          \<and> areStylesEqual (style (words sh ! i)) (style (words sh ! (i + 1))))
                 | _ \<Rightarrow> Inr False))))"

text \<open>The decoration block (source lines 639-657).\<close>

definition emit_decoration ::
  "Env \<Rightarrow> Geometry \<Rightarrow> Shared \<Rightarrow> nat \<Rightarrow> WordPosition \<Rightarrow> InlineText \<Rightarrow> PaintState \<Rightarrow> PaintState" where
  "emit_decoration env geo sh i layout word pst =
     (let line = wp_line layout;
          lastOfLine =
            (case slot_at (wordPositionInLayout sh) (i + 1) of
               Pos nxt \<Rightarrow> line \<noteq> wp_line nxt
             | _ \<Rightarrow> True)
      in if textDecorationLine env \<and> (lastOfLine \<or> skippedLine pst = int line) then
           (case decorationLines pst line of
              None \<Rightarrow> pst
            | Some deco \<Rightarrow>
                if d_emitted deco then pst
                else pst\<lparr> events := events pst @
                            [Decoration \<lparr> dc_index = i,
                               dc_left = js_add (Num (g_left geo)) (d_left deco),
                               dc_top = g_top geo
                                 + engine_height env (content word) * of_nat line,
                               dc_width = d_width deco,
                               dc_ascender = engine_baseline env (content word) \<rparr>],
                          decorationLines :=
                            (decorationLines pst)(line \<mapsto> deco\<lparr> d_emitted := True \<rparr>) \<rparr>)
         else pst)"

text \<open>The call of the \<^verbatim>\<open>text\<close> builder (source lines 662-683).\<close>

definition emit_text ::
  "Env \<Rightarrow> Geometry \<Rightarrow> nat \<Rightarrow> WordPosition \<Rightarrow> InlineText \<Rightarrow> string option \<Rightarrow> jsnum \<Rightarrow> jsnum
     \<Rightarrow> PaintState \<Rightarrow> PaintState" where
  "emit_text env geo i layout word img leftOffset topOffset pst =
     pst\<lparr> events := events pst @
            [TextElem \<lparr> t_index = i, t_content = content word,
               t_left = js_add (Num (g_left geo)) leftOffset,
               t_top = js_add (Num (g_top geo)) topOffset,
               t_width = wp_width layout,
               t_height = engine_height env (content word),
               t_image = img,
               t_color =
                 (case style word of
                    None \<Rightarrow> parentColor env
                  | Some st \<Rightarrow> (case color st of None \<Rightarrow> parentColor env | Some c \<Rightarrow> Some c)) \<rparr>] \<rparr>"

text \<open>The embedded-outline branch (source lines 566-603) for a token that is not an
  image: either the token is buffered and the pass ends (\<open>Inr (True, _)\<close>), or the
  outline of the buffered text and the token is requested.\<close>

definition embed_word ::
  "Env \<Rightarrow> Geometry \<Rightarrow> Shared \<Rightarrow> nat \<Rightarrow> WordPosition \<Rightarrow> InlineText \<Rightarrow> jsnum \<Rightarrow> PaintState
     \<Rightarrow> error + bool \<times> PaintState" where
  "embed_word env geo sh i layout word leftOffset pst =
     (case merge_condition env sh i word (wp_y layout) of
        Inl e \<Rightarrow> Inl e
      | Inr True \<Rightarrow>
          Inr (True,
               pst\<lparr> bufferedOffset :=
                      (if wordBuffer pst = None then leftOffset else bufferedOffset pst),
                    wordBuffer :=
                      (case wordBuffer pst of
                         None \<Rightarrow> Some word
                       | Some buf \<Rightarrow>
                           Some \<lparr> content = object_to_str buf @ content word,
                                  style = style word \<rparr>) \<rparr>)
      | Inr False \<Rightarrow>
          (let finalizedSegment =
                 (case wordBuffer pst of
                    None \<Rightarrow> word
                  | Some buf \<Rightarrow> \<lparr> content = content buf @ content word, style = style word \<rparr>);
               finalizedLeftOffset =
                 (if wordBuffer pst = None then leftOffset else bufferedOffset pst);
               baselineOfLine = num_at (baselines sh) (wp_line layout);
               baselineOfWord = engine_baseline env (content word);
               baselineDelta = js_sub baselineOfLine (Num baselineOfWord)
           in Inr (False,
                   pst\<lparr> wordBuffer := None,
                        events := events pst @
                          [GetSVG \<lparr> s_index = i, s_content = content finalizedSegment,
                             s_left = js_add (Num (g_left geo)) finalizedLeftOffset,
                             s_top = js_add (js_add (Num (g_top geo + wp_y layout))
                                                 (Num baselineOfWord)) baselineDelta \<rparr>] \<rparr>)))"

text \<open>One pass of the painter's loop (source lines 477-688).\<close>

definition paint_word ::
  "Env \<Rightarrow> Geometry \<Rightarrow> Shared \<Rightarrow> rat \<Rightarrow> rat \<Rightarrow> nat \<Rightarrow> PaintState \<Rightarrow> error + PaintState" where
  "paint_word env geo sh ellipsisWidth spaceWidth i pst0 =
     (case slot_at (wordPositionInLayout sh) i of
        Pos layout \<Rightarrow>
          (if int (wp_line layout) = skippedLine pst0 then Inr pst0
           else
             (let word0 = words sh ! i;
                  img = (case graphemeImages env of None \<Rightarrow> None | Some g \<Rightarrow> g (content word0));
                  line = wp_line layout;
                  (leftOffset, extendedWidth) = align_offset env geo sh layout;
                  pst1 =
                    (if decorationLines pst0 line = None
                     then pst0\<lparr> decorationLines := (decorationLines pst0)(line \<mapsto>
                                  \<lparr> d_left = leftOffset,
                                    d_width = (if extendedWidth then Num (containerWidth geo)
                                               else num_at (lineWidths sh) line),
                                    d_emitted = False \<rparr>) \<rparr>
                     else pst0);
                  (word, pst2) =
                    apply_ellipsis env geo sh ellipsisWidth spaceWidth layout word0 pst1;
                  baselineOfLine = num_at (baselines sh) line;
                  baselineOfWord = engine_baseline env (content word);
                  baselineDelta = js_sub baselineOfLine (Num baselineOfWord)
              in if img \<noteq> None \<and> img \<noteq> Some [] then
                   Inr (emit_text env geo i layout word img leftOffset (Num (wp_y layout))
                          (emit_decoration env geo sh i layout word pst2))
                 else if embedFont env then
                   (case embed_word env geo sh i layout word leftOffset pst2 of
                      Inl e \<Rightarrow> Inl e
                    | Inr (True, pst3) \<Rightarrow> Inr pst3
                    | Inr (False, pst3) \<Rightarrow> Inr (emit_decoration env geo sh i layout word pst3))
                 else
                   Inr (emit_text env geo i layout word img leftOffset
                          (js_add (Num (wp_y layout)) (js_add (Num baselineOfWord) baselineDelta))
                          (emit_decoration env geo sh i layout word pst2))))
      | _ \<Rightarrow> Inr pst0)"

fun paint_words ::
  "Env \<Rightarrow> Geometry \<Rightarrow> Shared \<Rightarrow> rat \<Rightarrow> rat \<Rightarrow> nat list \<Rightarrow> PaintState \<Rightarrow> error + PaintState" where
  "paint_words env geo sh ellipsisWidth spaceWidth [] pst = Inr pst"
| "paint_words env geo sh ellipsisWidth spaceWidth (i # rest) pst =
     (case paint_word env geo sh ellipsisWidth spaceWidth i pst of
        Inl e \<Rightarrow> Inl e
      | Inr pst' \<Rightarrow> paint_words env geo sh ellipsisWidth spaceWidth rest pst')"

text \<open>\<^verbatim>\<open>ellipsisWidth\<close> and \<^verbatim>\<open>spaceWidth\<close> (source lines 471-472), with the width cache.\<close>

definition ellipsis_widths :: "Env \<Rightarrow> (string \<rightharpoonup> rat) \<Rightarrow> rat \<times> rat \<times> (string \<rightharpoonup> rat)" where
  "ellipsis_widths env cache =
     (if textOverflow env = ''ellipsis'' then
        (let (ew, cache1) = measureWithCache env [ellipsis] cache;
             (sw, cache2) = measureWithCache env ['' ''] cache1
         in (ew, sw, cache2))
      else (0, 0, cache))"

text \<open>The painter: the loop over all tokens, from the state the last measurement call
  left.\<close>

definition paint :: "Env \<Rightarrow> Geometry \<Rightarrow> Shared \<Rightarrow> error + PaintState" where
  "paint env geo sh =
     (let (ew, sw, cache) = ellipsis_widths env (wordWidthCache sh)
      in paint_words env geo sh ew sw [0..<length (words sh)]
           \<lparr> skippedLine = - 1, decorationLines = Map.empty, wordBuffer = None,
             bufferedOffset = Num 0, paint_cache = cache, events = [] \<rparr>)"

subsection \<open>Predicates used in the statements\<close>

text \<open>The per-line arrays during a measurement call that started with \<open>n\<close> baselines:
  one segment counter per started line, one width and one new baseline per flushed
  line.\<close>

definition lines_aligned :: "nat \<Rightarrow> MeasureState \<Rightarrow> bool" where
  "lines_aligned n st =
     (length (lineSegmentNumber st) = length (lineWidths st) + 1
      \<and> length (baselines st) = n + length (lineWidths st)
      \<and> m_lines st = length (lineWidths st))"

text \<open>The scan stands at a token with content \<open>g\<close> on an empty line, and the cache
  holds no other width for \<open>g\<close> than the engine's.\<close>

definition stuck :: "Env \<Rightarrow> string \<Rightarrow> MeasureState \<Rightarrow> bool" where
  "stuck env g s =
     (m_i s < length (words s) \<and> content (words s ! m_i s) = g \<and> currentWidth s = 0
      \<and> (wordWidthCache s g = None \<or> wordWidthCache s g = Some (engine_measure env g)))"

text \<open>Two measurement calls in a row on the same shared state: the state after the
  second.\<close>

definition measure_twice :: "Env \<Rightarrow> jsnum \<Rightarrow> jsnum \<Rightarrow> Shared \<Rightarrow> Shared option" where
  "measure_twice env w1 w2 sh =
     (case measureFunc env w1 sh of
        None \<Rightarrow> None
      | Some (r1, sh1) \<Rightarrow> map_option snd (measureFunc env w2 sh1))"

text \<open>What is read off a recorded call in the examples: token index, text, left, top.\<close>

fun summary :: "event \<Rightarrow> string \<times> nat \<times> string \<times> jsnum \<times> jsnum" where
  "summary (GetSVG c) = (''getSVG'', s_index c, s_content c, s_left c, s_top c)"
| "summary (TextElem c) = (''text'', t_index c, t_content c, t_left c, t_top c)"
| "summary (Decoration c) = (''decoration'', dc_index c, [], dc_left c, Num (dc_top c))"

definition painted :: "Env \<Rightarrow> Geometry \<Rightarrow> Shared \<Rightarrow> error + (string \<times> nat \<times> string \<times> jsnum \<times> jsnum) list" where
  "painted env geo sh = map_sum id (\<lambda>pst. map summary (events pst)) (paint env geo sh)"

text \<open>The width the painter has recorded for a line when it is done
  (\<^verbatim>\<open>decorationLines[line][1]\<close>).\<close>

definition recorded_width :: "Env \<Rightarrow> Geometry \<Rightarrow> nat \<Rightarrow> Shared \<Rightarrow> error + jsnum option" where
  "recorded_width env geo line sh =
     map_sum id (\<lambda>pst. map_option d_width (decorationLines pst line)) (paint env geo sh)"

text \<open>Justification, in the words of the specification: the number of segments
  recorded for a line (none recorded counts as none), the gutter, which is the
  remaining width divided by the segments minus one and 0 for a line of at most one
  segment, and the left offset of a token, shifted by the gutter times its justify
  index on every line before the last and unchanged otherwise.\<close>

definition segments_on :: "Shared \<Rightarrow> nat \<Rightarrow> nat" where
  "segments_on sh line =
     (if line < length (lineSegmentNumber sh) then lineSegmentNumber sh ! line else 0)"

definition justify_gutter :: "Geometry \<Rightarrow> Shared \<Rightarrow> nat \<Rightarrow> rat" where
  "justify_gutter geo sh line =
     (if segments_on sh line > 1
      then (containerWidth geo - lineWidths sh ! line) / (of_nat (segments_on sh line) - 1)
      else 0)"

definition justified_left :: "Geometry \<Rightarrow> Shared \<Rightarrow> WordPosition \<Rightarrow> rat" where
  "justified_left geo sh layout =
     (if wp_line layout < length (lineWidths sh) - 1
      then wp_x layout + justify_gutter geo sh (wp_line layout) * of_int (wp_lineIndex layout)
      else wp_x layout)"

text \<open>\<open>v\<close> is the left coordinate of token \<open>j\<close>: the container's left plus the token's
  aligned offset.\<close>

definition token_offset :: "Env \<Rightarrow> Geometry \<Rightarrow> Shared \<Rightarrow> nat \<Rightarrow> jsnum \<Rightarrow> bool" where
  "token_offset env geo sh j v =
     (\<exists>layout. slot_at (wordPositionInLayout sh) j = Pos layout
        \<and> v = js_add (Num (g_left geo)) (fst (align_offset env geo sh layout)))"

text \<open>Every left coordinate the painter has handed to a builder, and the one it holds
  for the buffered text, is the left coordinate of a token.\<close>

definition lefts_ok :: "Env \<Rightarrow> Geometry \<Rightarrow> Shared \<Rightarrow> PaintState \<Rightarrow> bool" where
  "lefts_ok env geo sh pst =
     ((\<forall>t. TextElem t \<in> set (events pst) \<longrightarrow> token_offset env geo sh (t_index t) (t_left t))
      \<and> (\<forall>c. GetSVG c \<in> set (events pst) \<longrightarrow> (\<exists>j. token_offset env geo sh j (s_left c)))
      \<and> (wordBuffer pst \<noteq> None \<longrightarrow>
           (\<exists>j. token_offset env geo sh j (js_add (Num (g_left geo)) (bufferedOffset pst)))))"

text \<open>The width cache holds only what the font engine answers. It starts empty and is
  written by \<open>measure_segments\<close> alone, so every cache the layout reaches is of this
  kind.\<close>

definition cache_ok :: "Env \<Rightarrow> (string \<rightharpoonup> rat) \<Rightarrow> bool" where
  "cache_ok env cache = (\<forall>s v. cache s = Some v \<longrightarrow> v = engine_measure env s)"

text \<open>The width \<^verbatim>\<open>w\<close> of a visible token, without the cache.\<close>

definition token_w :: "Env \<Rightarrow> bool \<Rightarrow> InlineText \<Rightarrow> rat" where
  "token_w env forceBreak word =
     (if forceBreak then 0
      else if is_image env (content word) then fontSize env
      else engine_measure env (content word))"

text \<open>What the line breaking of a measurement call reads and decides on: the word list,
  the callback's locals, and the two arrays the callback resets. The baselines, the
  word positions and the cache are left out.\<close>

definition scan_view ::
  "MeasureState \<Rightarrow> InlineText list \<times> rat list \<times> nat list \<times> nat \<times> nat \<times> string \<times> rat \<times> rat
     \<times> rat \<times> int \<times> rat \<times> rat \<times> rat" where
  "scan_view st =
     (words st, lineWidths st, lineSegmentNumber st, m_i st, m_lines st, remainingSpace st,
      remainingSpaceWidth st, currentWidth st, maxWidth st, lineIndex st, m_height st,
      currentLineHeight st, currentBaselineOffset st)"

definition same_scan :: "Env \<Rightarrow> MeasureState \<Rightarrow> MeasureState \<Rightarrow> bool" where
  "same_scan env a b =
     (scan_view a = scan_view b
      \<and> cache_ok env (wordWidthCache a) \<and> cache_ok env (wordWidthCache b))"

text \<open>Two measurement calls in a row: what the first and the second return.\<close>

definition measure_twice_results ::
  "Env \<Rightarrow> jsnum \<Rightarrow> jsnum \<Rightarrow> Shared \<Rightarrow> ((rat \<times> rat) \<times> (rat \<times> rat)) option" where
  "measure_twice_results env w1 w2 sh =
     (case measureFunc env w1 sh of
        None \<Rightarrow> None
      | Some (r1, sh1) \<Rightarrow> map_option (\<lambda>(r2, sh2). (r1, r2)) (measureFunc env w2 sh1))"

subsection \<open>Example inputs\<close>

text \<open>A font engine in which every character is 10 wide and a line is 12 high with
  its baseline at 9, except for the token \<open>A\<close>, which is 20 high with its baseline at
  15. Every character is a grapheme of its own.\<close>

definition demo_env :: Env where
  "demo_env =
     \<lparr> engine_measure = (\<lambda>s. of_nat (length s) * 10),
       engine_height = (\<lambda>s. if s = ''A'' then 20 else 12),
       engine_baseline = (\<lambda>s. if s = ''A'' then 15 else 9),
       wordSeparators = ['' '', LF],
       segment_grapheme = map (\<lambda>c. [c]),
       graphemeImages = Some Map.empty,
       embedFont = False,
       fontSize = 16,
       whiteSpace = ''normal'',
       wordBreak = ''normal'',
       textAlign = ''left'',
       textOverflow = ''clip'',
       textDecorationLine = False,
       parentColor = None \<rparr>"

definition plain :: "string \<Rightarrow> InlineText" where
  "plain s = \<lparr> content = s, style = None \<rparr>"

text \<open>The shared variables as \<^verbatim>\<open>buildTextNodes\<close> declares them, for a word list.\<close>

definition fresh :: "string list \<Rightarrow> Shared" where
  "fresh ws =
     \<lparr> words = map plain ws, lineWidths = [], baselines = [], lineSegmentNumber = [],
       wordPositionInLayout = [], wordWidthCache = Map.empty \<rparr>"

definition demo_geo :: Geometry where
  "demo_geo = \<lparr> g_left = 100, g_top = 200, containerWidth = 40, parentContainerInnerWidth = 40 \<rparr>"

text \<open>A parent with no explicit width and no max-width, and a min-width of 100 points.\<close>

definition demo_parent :: Parent where
  "demo_parent =
     \<lparr> p_width = \<lparr> yg_unit = 3, yg_value = NaN \<rparr>,
       p_minWidth = \<lparr> yg_unit = 1, yg_value = Num 100 \<rparr>,
       p_maxWidth = \<lparr> yg_unit = 0, yg_value = NaN \<rparr> \<rparr>"

text \<open>The same engine with \<^verbatim>\<open>word-break: break-word\<close>.\<close>

definition bw_env :: Env where
  "bw_env = demo_env\<lparr> wordBreak := ''break-word'' \<rparr>"

text \<open>A justified block of two lines: \<open>a\<close> and \<open>b\<close> on the first line, which has two
  segments and is 20 wide, \<open>c\<close> on the last.\<close>

definition justify_env :: Env where
  "justify_env = demo_env\<lparr> textAlign := ''justify'' \<rparr>"

definition justify_sh :: Shared where
  "justify_sh =
     \<lparr> words = [plain ''a'', plain ''b'', plain ''c''],
       lineWidths = [20, 10], baselines = [9, 9], lineSegmentNumber = [2, 1],
       wordPositionInLayout =
         [Pos \<lparr> wp_x = 0, wp_y = 0, wp_width = 10, wp_line = 0, wp_lineIndex = 0 \<rparr>,
          Pos \<lparr> wp_x = 10, wp_y = 0, wp_width = 10, wp_line = 0, wp_lineIndex = 1 \<rparr>,
          Pos \<lparr> wp_x = 0, wp_y = 12, wp_width = 10, wp_line = 1, wp_lineIndex = 0 \<rparr>],
       wordWidthCache = Map.empty \<rparr>"

text \<open>Variants of the engine: \<^verbatim>\<open>white-space: pre\<close>; embedded outlines; embedded
  outlines without a \<^verbatim>\<open>graphemeImages\<close> table; one line with an ellipsis, the ellipsis
  glyph being 10 wide like every other character, without and with break-word.\<close>

definition pre_env :: Env where
  "pre_env = demo_env\<lparr> whiteSpace := ''pre'' \<rparr>"

definition embed_env :: Env where
  "embed_env = demo_env\<lparr> embedFont := True \<rparr>"

definition no_images_env :: Env where
  "no_images_env = embed_env\<lparr> graphemeImages := None \<rparr>"

definition ellipsis_env :: Env where
  "ellipsis_env =
     demo_env\<lparr> whiteSpace := ''nowrap'', textOverflow := ''ellipsis'',
               engine_measure := (\<lambda>s. if s = ellipsis then 10 else of_nat (length s) * 10) \<rparr>"

definition bw_ellipsis_env :: Env where
  "bw_ellipsis_env = ellipsis_env\<lparr> wordBreak := ''break-word'' \<rparr>"

definition narrow_geo :: Geometry where
  "narrow_geo =
     \<lparr> g_left = 100, g_top = 200, containerWidth = 15, parentContainerInnerWidth = 15 \<rparr>"

text \<open>The same parent with a min-width of 20 points.\<close>

definition low_parent :: Parent where
  "low_parent = demo_parent\<lparr> p_minWidth := \<lparr> yg_unit = 1, yg_value = Num 20 \<rparr> \<rparr>"

section \<open>Properties\<close>

subsection \<open>The loop of the measurement callback\<close>

text \<open>An invariant of the loop body holds when the loop returns, and the loop returns
  only with the index past the end of the word list.\<close>

lemma measure_loop_invariant:
  assumes run: "measure_loop env width st = Some st'"
    and init: "I st"
    and step: "\<And>s. I s \<Longrightarrow> m_i s < length (words s) \<Longrightarrow> I (measure_step env width s)"
  shows "I st' \<and> \<not> m_i st' < length (words st')"
proof -
  let ?P = "\<lambda>e w s y. e = env \<longrightarrow> w = width \<longrightarrow> I s \<longrightarrow> I y \<and> \<not> m_i y < length (words y)"
  have "?P env width st st'"
  proof (rule measure_loop.raw_induct[where P = ?P, OF _ run])
    fix f e w s y
    assume IH: "\<And>e w s y. f e w s = Some y \<Longrightarrow> ?P e w s y"
      and eq: "(if m_i s < length (words s) then f e w (measure_step e w s) else Some s) = Some y"
    show "?P e w s y"
    proof (intro impI)
      assume e: "e = env" and w: "w = width" and s: "I s"
      show "I y \<and> \<not> m_i y < length (words y)"
      proof (cases "m_i s < length (words s)")
        case True
        with eq have "f e w (measure_step e w s) = Some y" by simp
        from IH[OF this] e w step[OF s True] show ?thesis by simp
      next
        case False
        with eq have "y = s" by simp
        with s False show ?thesis by simp
      qed
    qed
  qed
  with init show ?thesis by simp
qed

text \<open>A set of states that the body never leaves and in which the loop condition
  holds: from there the loop does not return.\<close>

lemma measure_loop_diverges:
  assumes init: "I st"
    and step: "\<And>s. I s \<Longrightarrow> m_i s < length (words s) \<and> I (measure_step env width s)"
  shows "measure_loop env width st = None"
proof (rule ccontr)
  assume "measure_loop env width st \<noteq> None"
  then obtain y where "measure_loop env width st = Some y" by auto
  from measure_loop_invariant[OF this, of I] init step
  have "I y \<and> \<not> m_i y < length (words y)" by blast
  with step show False by blast
qed

lemma m_i_new_line [simp]: "m_i (new_line a b c st) = m_i st"
  by (simp add: new_line_def)

lemma m_i_step_record [simp]: "m_i (step_record w j st) = m_i st"
  by (simp add: step_record_def Let_def)

lemma m_i_step_break_word [simp]: "m_i (step_break_word env word st) = m_i st"
  by (simp add: step_break_word_def Let_def)

lemma m_i_step_wrap [simp]: "m_i (step_wrap env width fb word w j st) = m_i st"
  by (simp add: step_wrap_def Let_def)

lemma m_i_step_fit [simp]: "m_i (step_fit env word w j st) = m_i st"
  by (simp add: step_fit_def Let_def)

lemma m_i_step_place [simp]: "m_i (step_place env width fb word w st) = m_i st"
  by (simp add: step_place_def Let_def)

lemma m_i_step_prepare [simp]: "m_i (snd (step_prepare env fb word st)) = m_i st"
  by (simp add: step_prepare_def Let_def split: prod.splits)

lemma step_visible_alt:
  "step_visible env width fb word st
     = step_place env width fb word (fst (step_prepare env fb word st))
         (snd (step_prepare env fb word st))"
  by (simp add: step_visible_def case_prod_beta)

lemma m_i_step_visible: "m_i (step_visible env width fb word st) = m_i st"
  by (simp add: step_visible_alt)

text \<open>The whitespace branch is never taken: its test looks the first character up on
  the token object, not on the token's content.\<close>

lemma measure_step_visible:
  "measure_step env width st =
     (step_visible env width (shouldKeepLinebreak env \<and> content (words st ! m_i st) = LF)
        (words st ! m_i st) st)\<lparr> m_i := m_i st + 1 \<rparr>"
  by (simp add: measure_step_def Let_def prop0_def includes_val_def m_i_step_visible)

subsection \<open>Whitespace tokens\<close>

text \<open>
  Claim C3: during a measurement call, a token whose first character is a word separator
  (whitespace collapsing on, no forced break) is merged into one pending space, so that
  consecutive separators contribute at most one space width, and its position is
  recorded as \<^verbatim>\<open>null\<close>.

  The code does not do this. By \<open>measure_step_visible\<close> every token takes the visible
  branch. For the tokens \<open>a\<close>, two spaces and \<open>b\<close> with \<^verbatim>\<open>white-space: normal\<close> both
  spaces get a position of their own, and \<open>b\<close> starts at 30, two space widths after
  \<open>a\<close>.
\<close>

theorem separators_laid_out_as_visible:
  "map_option (wordPositionInLayout \<circ> snd)
     (measureFunc demo_env (Num 100) (fresh [''a'', '' '', '' '', ''b'']))
   = Some [Pos \<lparr> wp_x = 0, wp_y = 0, wp_width = 10, wp_line = 0, wp_lineIndex = 0 \<rparr>,
           Pos \<lparr> wp_x = 10, wp_y = 0, wp_width = 10, wp_line = 0, wp_lineIndex = 0 \<rparr>,
           Pos \<lparr> wp_x = 20, wp_y = 0, wp_width = 10, wp_line = 0, wp_lineIndex = 0 \<rparr>,
           Pos \<lparr> wp_x = 30, wp_y = 0, wp_width = 10, wp_line = 0, wp_lineIndex = 0 \<rparr>]"
  by code_simp

subsection \<open>Termination of the measurement callback\<close>

lemma token_width_engine:
  assumes "cache g = None \<or> cache g = Some (engine_measure env g)"
    and "\<not> is_image env (content word)" and "content word = g"
  shows "token_width env False word cache
           = (engine_measure env g, cache(g \<mapsto> engine_measure env g))"
  using assms by (auto simp: token_width_def measureWithCache_def Let_def fun_upd_idem)

text \<open>With break-word, a token that is one grapheme wider than the available width, met
  on an empty line, is replaced by a placeholder and itself; the next pass meets the
  same token on the same empty line.\<close>

lemma stuck_step:
  assumes bw: "isBreakWord env" and wide: "js_gt (Num (engine_measure env g)) width"
    and seg: "segment_grapheme env g = [g]" and img: "\<not> is_image env g" and nl: "g \<noteq> LF"
    and inv: "stuck env g s"
  shows "stuck env g (measure_step env width s)"
proof -
  let ?word = "words s ! m_i s"
  from inv have i: "m_i s < length (words s)" and c: "content ?word = g"
    and cw: "currentWidth s = 0"
    and cache: "wordWidthCache s g = None \<or> wordWidthCache s g = Some (engine_measure env g)"
    by (simp_all add: stuck_def)
  have tw: "token_width env False ?word (wordWidthCache s)
      = (engine_measure env g, (wordWidthCache s)(g \<mapsto> engine_measure env g))"
    using cache img c by (intro token_width_engine) simp_all
  have sv: "step_visible env width False ?word s
      = step_break_word env ?word
          (s\<lparr> wordWidthCache := (wordWidthCache s)(g \<mapsto> engine_measure env g),
              remainingSpace := [], remainingSpaceWidth := 0 \<rparr>)"
    unfolding step_visible_def step_prepare_def step_place_def Let_def tw
    using bw wide cw by simp
  have ms: "measure_step env width s = (step_visible env width False ?word s)\<lparr> m_i := m_i s + 1 \<rparr>"
    using c nl by (simp add: measure_step_visible)
  show ?thesis
    unfolding ms sv using i c cw seg
    by (simp add: stuck_def step_break_word_def Let_def nth_append min_def)
qed

lemma oversized_grapheme_diverges:
  assumes "isBreakWord env" and "js_gt (Num (engine_measure env g)) width"
    and "segment_grapheme env g = [g]" and "\<not> is_image env g" and "g \<noteq> LF"
    and "stuck env g s"
  shows "measure_loop env width s = None"
proof (rule measure_loop_diverges[where I = "stuck env g"])
  show "stuck env g s" by fact
next
  fix t assume t: "stuck env g t"
  from stuck_step[OF assms(1-5) t] t
  show "m_i t < length (words t) \<and> stuck env g (measure_step env width t)"
    by (simp add: stuck_def)
qed

text \<open>
  Claim C2: for every word sequence and every available width the measurement callback
  terminates; in break-word mode a single grapheme wider than the available width is
  placed on a line and overflows it rather than being split further.

  The code does not return on such a token: for the single token \<open>W\<close>, 10 wide, and an
  available width of 5, the callback keeps replacing the token by a placeholder and
  itself (\<open>oversized_grapheme_diverges\<close>).
\<close>

theorem break_word_oversized_grapheme_never_returns:
  "measureFunc bw_env (Num 5) (fresh [''W'']) = None"
proof -
  have "measure_loop bw_env (Num 5) (measure_init (fresh [''W''])) = None"
  proof (rule oversized_grapheme_diverges[where g = "''W''"])
    show "stuck bw_env ''W'' (measure_init (fresh [''W'']))"
      by (simp add: stuck_def measure_init_def fresh_def plain_def)
  qed (simp_all add: bw_env_def demo_env_def isBreakWord_def is_image_def LF_def)
  then show ?thesis by (simp add: measureFunc_def measure_run_def)
qed

subsection \<open>The per-line arrays\<close>

lemma length_incr_last [simp]: "length (incr_last xs) = length xs"
  by (cases xs rule: rev_cases) (simp_all add: incr_last_def)

lemma lines_aligned_new_line: "lines_aligned n st \<Longrightarrow> lines_aligned n (new_line a b c st)"
  by (simp add: lines_aligned_def new_line_def)

lemma lines_aligned_step_record: "lines_aligned n st \<Longrightarrow> lines_aligned n (step_record w j st)"
  by (simp add: lines_aligned_def step_record_def Let_def)

lemma lines_aligned_upd [simp]:
  "lines_aligned n (st\<lparr> wordWidthCache := c \<rparr>) = lines_aligned n st"
  "lines_aligned n (st\<lparr> currentLineHeight := h \<rparr>) = lines_aligned n st"
  "lines_aligned n (st\<lparr> remainingSpace := rs \<rparr>) = lines_aligned n st"
  "lines_aligned n (st\<lparr> remainingSpaceWidth := rw \<rparr>) = lines_aligned n st"
  "lines_aligned n (st\<lparr> currentWidth := cw \<rparr>) = lines_aligned n st"
  "lines_aligned n (st\<lparr> currentBaselineOffset := b \<rparr>) = lines_aligned n st"
  "lines_aligned n (st\<lparr> maxWidth := mw \<rparr>) = lines_aligned n st"
  "lines_aligned n (st\<lparr> m_i := k \<rparr>) = lines_aligned n st"
  "lines_aligned n (st\<lparr> words := ws \<rparr>) = lines_aligned n st"
  "lines_aligned n (st\<lparr> lineSegmentNumber := incr_last (lineSegmentNumber st) \<rparr>)
     = lines_aligned n st"
  by (simp_all add: lines_aligned_def)

lemma lines_aligned_break_word:
  "lines_aligned n st \<Longrightarrow> lines_aligned n (step_break_word env word st)"
  by (simp add: step_break_word_def Let_def lines_aligned_new_line)

lemma lines_aligned_step_place:
  "lines_aligned n st \<Longrightarrow> lines_aligned n (step_place env width fb word w st)"
  by (simp add: step_place_def step_wrap_def step_fit_def Let_def
        lines_aligned_new_line lines_aligned_step_record lines_aligned_break_word)

lemma lines_aligned_step_prepare:
  "lines_aligned n st \<Longrightarrow> lines_aligned n (snd (step_prepare env fb word st))"
  by (simp add: step_prepare_def Let_def split: prod.splits)

lemma lines_aligned_step_visible:
  "lines_aligned n st \<Longrightarrow> lines_aligned n (step_visible env width fb word st)"
  by (simp add: step_visible_alt lines_aligned_step_place lines_aligned_step_prepare)

lemma lines_aligned_step: "lines_aligned n st \<Longrightarrow> lines_aligned n (measure_step env width st)"
  by (simp add: measure_step_visible lines_aligned_step_visible)

lemma lines_aligned_loop:
  assumes "measure_loop env width (measure_init sh) = Some st"
  shows "lines_aligned (length (baselines sh)) st"
proof -
  have "lines_aligned (length (baselines sh)) (measure_init sh)"
    by (simp add: lines_aligned_def measure_init_def)
  with measure_loop_invariant[OF assms, of "lines_aligned (length (baselines sh))"]
  show ?thesis using lines_aligned_step by blast
qed

text \<open>
  Claim C5, as amended: after every measurement call \<^verbatim>\<open>lineSegmentNumber\<close> has one entry
  per started line and \<^verbatim>\<open>lineWidths\<close> one entry per line with a non-zero width, so
  \<^verbatim>\<open>lineSegmentNumber.length\<close> is \<^verbatim>\<open>lineWidths.length\<close> when the call ends on a line of
  non-zero width (\<^verbatim>\<open>_currentWidth\<close> is not 0) and \<^verbatim>\<open>lineWidths.length + 1\<close> otherwise;
  on a call that starts with \<^verbatim>\<open>baselines\<close> empty, \<^verbatim>\<open>baselines.length\<close> equals
  \<^verbatim>\<open>lineWidths.length\<close>.
\<close>

theorem line_arrays_lengths:
  assumes "measure_run env width sh = Some st"
  shows "length (lineSegmentNumber st)
           = length (lineWidths st) + (if currentWidth st = 0 then 1 else 0)
         \<and> (baselines sh = [] \<longrightarrow> length (baselines st) = length (lineWidths st))"
proof -
  from assms obtain s where loop: "measure_loop env width (measure_init sh) = Some s"
    and st: "st = measure_finish s"
    by (auto simp: measure_run_def)
  from lines_aligned_loop[OF loop] show ?thesis
    unfolding st by (simp add: lines_aligned_def measure_finish_def)
qed

theorem line_arrays_lengths_witness:
  "\<exists>st. measure_run demo_env (Num 10) (fresh [''b'', ''A'']) = Some st
     \<and> length (lineSegmentNumber st)
         = length (lineWidths st) + (if currentWidth st = 0 then 1 else 0)
     \<and> length (baselines st) = length (lineWidths st)"
proof -
  have "measure_run demo_env (Num 10) (fresh [''b'', ''A'']) \<noteq> None"
    by code_simp
  then obtain st where st: "measure_run demo_env (Num 10) (fresh [''b'', ''A'']) = Some st"
    by auto
  have "baselines (fresh [''b'', ''A'']) = []" by (simp add: fresh_def)
  with line_arrays_lengths[OF st] st show ?thesis by simp
qed

text \<open>The claim as stated fails for a text that ends with a forced line break: the
  tokens \<open>a\<close> and a line feed under \<^verbatim>\<open>white-space: pre-line\<close> leave one line width and two
  segment counters.\<close>

theorem line_arrays_lengths_counterexample:
  "map_option (length \<circ> lineWidths \<circ> snd)
     (measureFunc (demo_env\<lparr> whiteSpace := ''pre-line'' \<rparr>) (Num 100) (fresh [''a'', LF]))
     = Some 1
   \<and> map_option (length \<circ> lineSegmentNumber \<circ> snd)
     (measureFunc (demo_env\<lparr> whiteSpace := ''pre-line'' \<rparr>) (Num 100) (fresh [''a'', LF]))
     = Some 2"
  by code_simp

text \<open>
  Claim C1: every measurement call recomputes and overwrites all line metrics
  (\<^verbatim>\<open>lineWidths\<close>, \<^verbatim>\<open>baselines\<close>, \<^verbatim>\<open>lineSegmentNumber\<close>) and all word positions, so that
  the painter reads only what the most recent call wrote.

  The code resets \<^verbatim>\<open>lineWidths\<close> and \<^verbatim>\<open>lineSegmentNumber\<close> but appends to \<^verbatim>\<open>baselines\<close>.
  For the tokens \<open>b\<close> and \<open>A\<close>, measured at width 100 (one line, baseline 15) and then at
  width 10 (two lines, baselines 9 and 15), \<^verbatim>\<open>baselines\<close> is \<open>[15, 9, 15]\<close>: the painter
  reads the first call's 15 for line 0 and line 0's 9 for line 1, and places \<open>b\<close> at
  215 and \<open>A\<close> at 221. After the call at width 10 alone it places them at 209 and 227.
\<close>

theorem baselines_survive_earlier_call:
  "map_option baselines (measure_twice demo_env (Num 100) (Num 10) (fresh [''b'', ''A'']))
     = Some [15, 9, 15]
   \<and> map_option lineWidths (measure_twice demo_env (Num 100) (Num 10) (fresh [''b'', ''A'']))
     = Some [10, 10]
   \<and> map_option (painted demo_env demo_geo)
        (measure_twice demo_env (Num 100) (Num 10) (fresh [''b'', ''A'']))
     = Some (Inr [(''text'', 0, ''b'', Num 100, Num 215), (''text'', 1, ''A'', Num 100, Num 221)])
   \<and> map_option (painted demo_env demo_geo \<circ> snd)
        (measureFunc demo_env (Num 10) (fresh [''b'', ''A'']))
     = Some (Inr [(''text'', 0, ''b'', Num 100, Num 209), (''text'', 1, ''A'', Num 100, Num 227)])"
  by code_simp

text \<open>A word position survives as well: the pass that splits a token leaves the
  placeholder's entry as it was. After a call at width 100 and one at width 25 the
  placeholder at index 1 still has the position the unsplit token had in the first
  call, and the painter draws it.\<close>

lemma word_position_survives_earlier_call:
  "map_option (\<lambda>sh. slot_at (wordPositionInLayout sh) 1)
     (measure_twice bw_env (Num 100) (Num 25) (fresh [''a'', ''WWW'']))
     = Some (Pos \<lparr> wp_x = 10, wp_y = 0, wp_width = 30, wp_line = 0, wp_lineIndex = 0 \<rparr>)
   \<and> map_option (map content \<circ> words)
     (measure_twice bw_env (Num 100) (Num 25) (fresh [''a'', ''WWW'']))
     = Some [''a'', [], ''W'', ''W'', ''W'']"
  by code_simp

subsection \<open>The painter: alignment\<close>

lemma align_offset_justify:
  assumes "textAlign env = ''justify''" and "1 < length (lineWidths sh)"
  shows "fst (align_offset env geo sh layout) = Num (justified_left geo sh layout)"
proof (cases "wp_line layout < length (lineWidths sh) - 1")
  case True
  then have "wp_line layout < length (lineWidths sh)" by simp
  with True assms show ?thesis
    by (simp add: align_offset_def Let_def justified_left_def justify_gutter_def
          segments_on_def num_at_def)
next
  case False
  with assms show ?thesis
    by (simp add: align_offset_def Let_def justified_left_def)
qed

lemma events_emit_decoration:
  "\<exists>ds. events (emit_decoration env geo sh i layout word pst) = events pst @ map Decoration ds"
proof -
  have "events (emit_decoration env geo sh i layout word pst) = events pst @ map Decoration []
      \<or> (\<exists>d. events (emit_decoration env geo sh i layout word pst) = events pst @ map Decoration [d])"
    by (auto simp: emit_decoration_def Let_def split: option.splits slot.splits)
  then show ?thesis by blast
qed

lemma emit_decoration_frame [simp]:
  "wordBuffer (emit_decoration env geo sh i layout word pst) = wordBuffer pst"
  "bufferedOffset (emit_decoration env geo sh i layout word pst) = bufferedOffset pst"
  "skippedLine (emit_decoration env geo sh i layout word pst) = skippedLine pst"
  "paint_cache (emit_decoration env geo sh i layout word pst) = paint_cache pst"
  by (auto simp: emit_decoration_def Let_def split: option.splits slot.splits)

lemma apply_ellipsis_frame [simp]:
  "wordBuffer (snd (apply_ellipsis env geo sh ew sw layout word pst)) = wordBuffer pst"
  "bufferedOffset (snd (apply_ellipsis env geo sh ew sw layout word pst)) = bufferedOffset pst"
  "events (snd (apply_ellipsis env geo sh ew sw layout word pst)) = events pst"
  by (auto simp: apply_ellipsis_def Let_def split: prod.splits)

lemma lefts_ok_decoration:
  "lefts_ok env geo sh pst \<Longrightarrow> lefts_ok env geo sh (emit_decoration env geo sh i layout word pst)"
  using events_emit_decoration[of env geo sh i layout word pst]
  by (auto simp: lefts_ok_def)

lemma lefts_ok_ellipsis:
  "lefts_ok env geo sh pst \<Longrightarrow> lefts_ok env geo sh (snd (apply_ellipsis env geo sh ew sw layout word pst))"
  by (simp add: lefts_ok_def)

lemma lefts_ok_deco_upd [simp]:
  "lefts_ok env geo sh (pst\<lparr> decorationLines := d \<rparr>) = lefts_ok env geo sh pst"
  by (simp add: lefts_ok_def)

lemma lefts_ok_text:
  assumes "lefts_ok env geo sh pst" and "slot_at (wordPositionInLayout sh) i = Pos layout"
  shows "lefts_ok env geo sh (emit_text env geo i layout' word img (fst (align_offset env geo sh layout)) tp pst)"
  using assms by (auto simp: lefts_ok_def emit_text_def token_offset_def)

lemma lefts_ok_embed:
  assumes "lefts_ok env geo sh pst" and "slot_at (wordPositionInLayout sh) i = Pos layout"
    and "embed_word env geo sh i layout' word (fst (align_offset env geo sh layout)) pst = Inr (b, pst')"
  shows "lefts_ok env geo sh pst'"
  using assms
  apply (simp add: embed_word_def Let_def split: sum.splits bool.splits if_splits)
   apply (auto simp: lefts_ok_def token_offset_def split: option.splits)
     apply blast+
  done


lemma lefts_ok_paint_word:
  assumes ok: "lefts_ok env geo sh pst" and run: "paint_word env geo sh ew sw i pst = Inr pst'"
  shows "lefts_ok env geo sh pst'"
proof (cases "slot_at (wordPositionInLayout sh) i")
  case (Pos layout)
  show ?thesis
  proof (cases "int (wp_line layout) = skippedLine pst")
    case True
    with assms Pos show ?thesis by (simp add: paint_word_def)
  next
    case False
    obtain lo ext where al: "align_offset env geo sh layout = (lo, ext)"
      by (cases "align_offset env geo sh layout")
    then have lo: "lo = fst (align_offset env geo sh layout)" by simp
    define pst1 where "pst1 = (if decorationLines pst (wp_line layout) = None
                     then pst\<lparr> decorationLines := (decorationLines pst)(wp_line layout \<mapsto>
                                  \<lparr> d_left = lo,
                                    d_width = (if ext then Num (containerWidth geo)
                                               else num_at (lineWidths sh) (wp_line layout)),
                                    d_emitted = False \<rparr>) \<rparr>
                     else pst)"
    obtain word pst2 where ae: "apply_ellipsis env geo sh ew sw layout (words sh ! i) pst1 = (word, pst2)"
      by (cases "apply_ellipsis env geo sh ew sw layout (words sh ! i) pst1")
    have ok1: "lefts_ok env geo sh pst1" using ok by (simp add: pst1_def)
    have ok2: "lefts_ok env geo sh pst2"
      using lefts_ok_ellipsis[OF ok1, of ew sw layout "words sh ! i"] ae by simp
    define img where "img = (case graphemeImages env of None \<Rightarrow> None | Some g \<Rightarrow> g (content (words sh ! i)))"
    define tp where "tp = js_add (Num (wp_y layout))
                            (js_add (Num (engine_baseline env (content word)))
                               (js_sub (num_at (baselines sh) (wp_line layout))
                                  (Num (engine_baseline env (content word)))))"
    have body: "paint_word env geo sh ew sw i pst =
       (if img \<noteq> None \<and> img \<noteq> Some [] then
          Inr (emit_text env geo i layout word img lo (Num (wp_y layout))
                 (emit_decoration env geo sh i layout word pst2))
        else if embedFont env then
          (case embed_word env geo sh i layout word lo pst2 of
             Inl e \<Rightarrow> Inl e
           | Inr (True, pst3) \<Rightarrow> Inr pst3
           | Inr (False, pst3) \<Rightarrow> Inr (emit_decoration env geo sh i layout word pst3))
        else Inr (emit_text env geo i layout word img lo tp
                    (emit_decoration env geo sh i layout word pst2)))"
      using Pos False al ae
      by (simp add: paint_word_def Let_def pst1_def[symmetric] img_def[symmetric] tp_def[symmetric])
    have okd: "lefts_ok env geo sh (emit_decoration env geo sh i layout word pst2)"
      by (rule lefts_ok_decoration[OF ok2])
    show ?thesis
    proof (cases "img \<noteq> None \<and> img \<noteq> Some []")
      case True
      with run body have "pst' = emit_text env geo i layout word img lo (Num (wp_y layout))
                 (emit_decoration env geo sh i layout word pst2)" by (auto split: if_splits)
      then show ?thesis using lefts_ok_text[OF okd Pos] lo by simp
    next
      case noimg: False
      show ?thesis
      proof (cases "embedFont env")
        case True
        with run body noimg obtain b pst3 where
          ew: "embed_word env geo sh i layout word lo pst2 = Inr (b, pst3)"
          and p': "pst' = (if b then pst3 else emit_decoration env geo sh i layout word pst3)"
          by (auto split: sum.splits prod.splits bool.splits if_splits)
        from lefts_ok_embed[OF ok2 Pos] ew lo have "lefts_ok env geo sh pst3" by simp
        with p' show ?thesis by (simp add: lefts_ok_decoration)
      next
        case False
        with run body noimg have "pst' = emit_text env geo i layout word img lo tp
                    (emit_decoration env geo sh i layout word pst2)" by (auto split: if_splits)
        then show ?thesis using lefts_ok_text[OF okd Pos] lo by simp
      qed
    qed
  qed
qed (use assms in \<open>simp_all add: paint_word_def\<close>)

lemma paint_words_invariant:
  assumes "paint_words env geo sh ew sw idxs pst = Inr pst'" and "I pst"
    and "\<And>i p p'. I p \<Longrightarrow> paint_word env geo sh ew sw i p = Inr p' \<Longrightarrow> I p'"
  shows "I pst'"
  using assms(1,2)
proof (induction idxs arbitrary: pst)
  case Nil
  then show ?case by simp
next
  case (Cons i idxs)
  then show ?case
    by (auto split: sum.splits intro: assms(3))
qed

lemma lefts_ok_paint:
  assumes "paint env geo sh = Inr pst"
  shows "lefts_ok env geo sh pst"
proof -
  obtain ew sw cache where w: "ellipsis_widths env (wordWidthCache sh) = (ew, sw, cache)"
    by (cases "ellipsis_widths env (wordWidthCache sh)") auto
  let ?init = "\<lparr> skippedLine = - 1, decorationLines = Map.empty, wordBuffer = None,
             bufferedOffset = Num 0, paint_cache = cache, events = [] \<rparr>"
  from assms w have run: "paint_words env geo sh ew sw [0..<length (words sh)] ?init = Inr pst"
    by (simp add: paint_def)
  have "lefts_ok env geo sh ?init" by (simp add: lefts_ok_def)
  from paint_words_invariant[OF run, of "lefts_ok env geo sh", OF this] lefts_ok_paint_word
  show ?thesis by blast
qed

text \<open>
  Claim C9: when text-align is \<^verbatim>\<open>justify\<close> and the block has more than one line, no
  token on the last line is shifted by justification (its left offset is unchanged),
  while a token on an earlier line is shifted by the gutter times its justify index; the
  gutter is the remaining width divided by the segments minus one, and 0 when the line
  has at most one segment.

  This is \<open>justified_left\<close>. It is the left offset the alignment block computes for
  every token, and so the left coordinate of every call of the \<^verbatim>\<open>text\<close> builder is the
  container's left plus \<open>justified_left\<close> of the token drawn; an outline request is
  placed at the coordinate of a token in the same way.
\<close>

theorem justify_shifts:
  assumes "textAlign env = ''justify''" and "1 < length (lineWidths sh)"
    and "paint env geo sh = Inr pst"
  shows "(\<forall>layout. fst (align_offset env geo sh layout) = Num (justified_left geo sh layout))
       \<and> (\<forall>t. TextElem t \<in> set (events pst) \<longrightarrow>
            (\<exists>layout. slot_at (wordPositionInLayout sh) (t_index t) = Pos layout
               \<and> t_left t = Num (g_left geo + justified_left geo sh layout)))
       \<and> (\<forall>c. GetSVG c \<in> set (events pst) \<longrightarrow>
            (\<exists>j layout. slot_at (wordPositionInLayout sh) j = Pos layout
               \<and> s_left c = Num (g_left geo + justified_left geo sh layout)))"
  using lefts_ok_paint[OF assms(3)] align_offset_justify[OF assms(1,2)]
  by (simp add: lefts_ok_def token_offset_def)

theorem justify_shifts_witness:
  "textAlign justify_env = ''justify'' \<and> 1 < length (lineWidths justify_sh)
   \<and> (\<exists>pst t1 t2 l1 l2.
         paint justify_env demo_geo justify_sh = Inr pst
         \<and> TextElem t1 \<in> set (events pst) \<and> t_index t1 = 1
         \<and> slot_at (wordPositionInLayout justify_sh) 1 = Pos l1
         \<and> justified_left demo_geo justify_sh l1 = 30 \<and> t_left t1 = Num 130
         \<and> TextElem t2 \<in> set (events pst) \<and> t_index t2 = 2
         \<and> slot_at (wordPositionInLayout justify_sh) 2 = Pos l2
         \<and> justified_left demo_geo justify_sh l2 = wp_x l2 \<and> t_left t2 = Num 100)"
proof -
  define t0 :: TextCall where "t0 = \<lparr> t_index = 0, t_content = ''a'', t_left = Num 100, t_top = Num 209,
               t_width = 10, t_height = 12, t_image = None, t_color = None \<rparr>"
  define t1 :: TextCall where "t1 = \<lparr> t_index = 1, t_content = ''b'', t_left = Num 130, t_top = Num 209,
               t_width = 10, t_height = 12, t_image = None, t_color = None \<rparr>"
  define t2 :: TextCall where "t2 = \<lparr> t_index = 2, t_content = ''c'', t_left = Num 100, t_top = Num 221,
               t_width = 10, t_height = 12, t_image = None, t_color = None \<rparr>"
  define l1 :: WordPosition where "l1 = \<lparr> wp_x = 10, wp_y = 0, wp_width = 10, wp_line = 0, wp_lineIndex = 1 \<rparr>"
  define l2 :: WordPosition where "l2 = \<lparr> wp_x = 0, wp_y = 12, wp_width = 10, wp_line = 1, wp_lineIndex = 0 \<rparr>"
  have j: "textAlign justify_env = ''justify''"
    by (simp add: justify_env_def demo_env_def)
  have m: "1 < length (lineWidths justify_sh)"
    by (simp add: justify_sh_def)
  have "map_sum id events (paint justify_env demo_geo justify_sh)
          = Inr [TextElem t0, TextElem t1, TextElem t2]"
    unfolding t0_def t1_def t2_def by code_simp
  then obtain pst where p: "paint justify_env demo_geo justify_sh = Inr pst"
    and ev: "events pst = [TextElem t0, TextElem t1, TextElem t2]"
    by (cases "paint justify_env demo_geo justify_sh") auto
  have s1: "slot_at (wordPositionInLayout justify_sh) 1 = Pos l1"
    and s2: "slot_at (wordPositionInLayout justify_sh) 2 = Pos l2"
    by (simp_all add: justify_sh_def slot_at_def l1_def l2_def)
  have i1: "t_index t1 = 1" and i2: "t_index t2 = 2" and x1: "t_left t1 = Num 130" and x2: "t_left t2 = Num 100"
    by (simp_all add: t1_def t2_def)
  have in1: "TextElem t1 \<in> set (events pst)" and in2: "TextElem t2 \<in> set (events pst)"
    by (simp_all add: ev)
  from justify_shifts[OF j m p] have all:
    "\<forall>t. TextElem t \<in> set (events pst) \<longrightarrow>
        (\<exists>layout. slot_at (wordPositionInLayout justify_sh) (t_index t) = Pos layout
           \<and> t_left t = Num (g_left demo_geo + justified_left demo_geo justify_sh layout))"
    by blast
  from all in1 obtain la where "slot_at (wordPositionInLayout justify_sh) (t_index t1) = Pos la"
    and "t_left t1 = Num (g_left demo_geo + justified_left demo_geo justify_sh la)" by blast
  with s1 i1 x1 have j1: "justified_left demo_geo justify_sh l1 = 30"
    by (simp add: demo_geo_def)
  from all in2 obtain lb where "slot_at (wordPositionInLayout justify_sh) (t_index t2) = Pos lb"
    and "t_left t2 = Num (g_left demo_geo + justified_left demo_geo justify_sh lb)" by blast
  with s2 i2 x2 have "justified_left demo_geo justify_sh l2 = 0"
    by (simp add: demo_geo_def)
  moreover have "wp_x l2 = 0" by (simp add: l2_def)
  ultimately have j2: "justified_left demo_geo justify_sh l2 = wp_x l2" by simp
  from j m p in1 in2 i1 i2 x1 x2 s1 s2 j1 j2 show ?thesis by blast
qed

subsection \<open>Exceptions\<close>

text \<open>With \<^verbatim>\<open>white-space: pre\<close> the scan reads \<^verbatim>\<open>word[0].content\<close> for the first token,
  and \<^verbatim>\<open>word[0]\<close> is \<^verbatim>\<open>undefined\<close>.\<close>

lemma pre_scan_raises:
  assumes "whiteSpace env = ''pre''" and "ws \<noteq> []"
  shows "min_width_scan env ws cache = Inl TypeError"
proof -
  from assms(2) obtain word rest where ws: "ws = word # rest" by (cases ws) auto
  have "breakSegment env word = Inl TypeError"
    using assms(1) by (simp add: breakSegment_def prop0_def read_content_def)
  then show ?thesis by (simp add: min_width_scan_def ws)
qed

text \<open>
  Claim C4: on the nominal path the layout raises no exception; in particular the
  min-width scan completes for every word sequence when white-space is \<^verbatim>\<open>pre\<close>, and no
  step of the painter raises for any combination of \<^verbatim>\<open>embedFont\<close>, \<^verbatim>\<open>graphemeImages\<close>,
  decoration, shadow or ellipsis configuration.

  The code raises a \<^verbatim>\<open>TypeError\<close> in the min-width scan for the one-token text \<open>a\<close>
  under \<^verbatim>\<open>white-space: pre\<close> (and for every non-empty text, \<open>pre_scan_raises\<close>), and in
  the painter for the tokens \<open>ab\<close>, \<open>cd\<close> when outlines are embedded and no
  \<^verbatim>\<open>graphemeImages\<close> table is given.
\<close>

theorem layout_raises_type_error:
  "map_sum id fst (min_width_scan pre_env [plain ''a''] Map.empty) = Inl TypeError
   \<and> map_option (painted no_images_env demo_geo \<circ> snd)
       (measureFunc no_images_env (Num 100) (fresh [''ab'', ''cd''])) = Some (Inl TypeError)"
  by code_simp

subsection \<open>The parent's min-width\<close>

text \<open>
  Claim C6: the computed \<^verbatim>\<open>minWidth\<close> is written to the parent box only when no explicit
  width is set and either no inherited min-width exists or the inherited min-width is a
  literal (point-unit) length smaller than the computed value; in all other cases the
  parent's min-width is left unchanged.

  The code compares the other way round (\<^verbatim>\<open>currentMinWidth.value > minWidth\<close>). For the
  text \<open>abcde\<close>, whose computed min-width is 50, an inherited min-width of 100 points is
  lowered to 50, and an inherited min-width of 20 points, which is smaller than the
  computed value, is left at 20, so that the parent can shrink below its content.
\<close>

theorem min_width_comparison_inverted:
  "map_sum id fst (min_width_scan demo_env [plain ''abcde''] Map.empty) = Inr 50
   \<and> \<not> spec_min_width_applies demo_parent 50
   \<and> setMinWidth_arg demo_parent 50 = Some 50
   \<and> p_minWidth (apply_min_width demo_parent 50) = \<lparr> yg_unit = 1, yg_value = Num 50 \<rparr>
   \<and> spec_min_width_applies low_parent 50
   \<and> setMinWidth_arg low_parent 50 = None
   \<and> p_minWidth (apply_min_width low_parent 50) = \<lparr> yg_unit = 1, yg_value = Num 20 \<rparr>"
  by code_simp

subsection \<open>The painter: merged outlines\<close>

text \<open>Two adjacent tokens of one line are requested as one outline of their
  concatenation.\<close>

lemma two_tokens_merged:
  "map_option (painted embed_env demo_geo \<circ> snd)
     (measureFunc embed_env (Num 100) (fresh [''ab'', ''cd'']))
   = Some (Inr [(''getSVG'', 1, ''abcd'', Num 100, Num 209)])"
  by code_simp

text \<open>
  Claim C7: with embedded outlines, two or more adjacent visible, non-separator,
  non-image tokens of one line with the same vertical offset and equal style are
  requested from the font engine as exactly one outline whose text is the concatenation
  of the tokens' contents, placed at the first buffered token's left offset.

  For three such tokens \<open>ab\<close>, \<open>cd\<close>, \<open>ef\<close> the code requests one outline, at the left
  offset of \<open>ab\<close>, but its text is not \<open>abcdef\<close>: buffering the second token concatenates
  the buffered token object, not its content, with \<open>cd\<close>.
\<close>

theorem three_tokens_merged_text:
  "map_option (painted embed_env demo_geo \<circ> snd)
     (measureFunc embed_env (Num 100) (fresh [''ab'', ''cd'', ''ef'']))
   = Some (Inr [(''getSVG'', 2, ''[object Object]cdef'', Num 100, Num 209)])"
  by code_simp

subsection \<open>The painter: ellipsis\<close>

text \<open>
  Claim C10: when text-overflow is \<^verbatim>\<open>ellipsis\<close> and a line is wider than the container's
  content box, the replacement of the token that is cut keeps at least one grapheme of
  the token before the ellipsis glyph, the recorded width stays within the content box
  up to one glyph, and every later token of the line is dropped.

  The code keeps no grapheme of the token. The loop over the graphemes concatenates the
  \<^verbatim>\<open>InlineText\<close> object of each grapheme, not its content, and measures that text. The
  token \<open>abcdef\<close> (60 wide, on one line) in a content box of 40 is replaced by the text of
  one object and the ellipsis, and the recorded width is 150, the width of that text,
  where one glyph is 10 wide.
\<close>

theorem ellipsis_keeps_object_text:
  "map_option (painted ellipsis_env demo_geo \<circ> snd)
     (measureFunc ellipsis_env (Num 40) (fresh [''abcdef'']))
   = Some (Inr [(''text'', 0, ''[object Object]'' @ ellipsis, Num 100, Num 209)])
   \<and> map_option (recorded_width ellipsis_env demo_geo 0 \<circ> snd)
     (measureFunc ellipsis_env (Num 40) (fresh [''abcdef'']))
   = Some (Inr (Some (Num 150)))"
  by code_simp

text \<open>A token without graphemes is cut to the ellipsis alone. With break-word the token
  \<open>WWWWW\<close> (50 wide) in a box of 15 is split into an empty placeholder and five
  graphemes; the second measurement call gives the placeholder a position, and the
  painter, for which the placeholder is the first token that does not fit together with
  the ellipsis and a space, replaces it by the ellipsis and drops the rest of the
  line.\<close>

lemma ellipsis_on_placeholder:
  "map_option (map content \<circ> words)
     (measure_twice bw_ellipsis_env (Num 15) (Num 15) (fresh [''WWWWW'']))
   = Some [[], ''W'', ''W'', ''W'', ''W'', ''W'']
   \<and> map_option (painted bw_ellipsis_env narrow_geo)
     (measure_twice bw_ellipsis_env (Num 15) (Num 15) (fresh [''WWWWW'']))
   = Some (Inr [(''text'', 0, ellipsis, Num 100, Num 209)])"
  by code_simp

subsection \<open>Determinism of the measurement callback\<close>

lemma cache_ok_empty: "cache_ok env Map.empty"
  by (simp add: cache_ok_def)

lemma measure_segments_ok:
  assumes "cache_ok env cache"
  shows "fst (measure_segments env segs tot cache) = tot + sum_list (map (engine_measure env) segs)
         \<and> cache_ok env (snd (measure_segments env segs tot cache))"
  using assms
proof (induction segs arbitrary: tot cache)
  case Nil
  then show ?case by simp
next
  case (Cons s segs)
  show ?case
  proof (cases "cache s")
    case None
    define c' where "c' = cache(s \<mapsto> engine_measure env s)"
    have "cache_ok env c'"
      using Cons.prems by (simp add: cache_ok_def c'_def)
    from Cons.IH[OF this, of "tot + engine_measure env s"]
    have "fst (measure_segments env segs (tot + engine_measure env s) c')
            = tot + engine_measure env s + sum_list (map (engine_measure env) segs)
          \<and> cache_ok env (snd (measure_segments env segs (tot + engine_measure env s) c'))" .
    moreover have "measure_segments env (s # segs) tot cache
            = measure_segments env segs (tot + engine_measure env s) c'"
      using None by (simp add: Let_def c'_def)
    ultimately show ?thesis by (simp add: add.assoc)
  next
    case (Some v)
    with Cons.prems have "v = engine_measure env s" by (simp add: cache_ok_def)
    with Cons.IH[OF Cons.prems] Some show ?thesis by (simp add: add.assoc)
  qed
qed

lemma token_width_ok:
  assumes "cache_ok env cache"
  shows "fst (token_width env fb word cache) = token_w env fb word"
    and "cache_ok env (snd (token_width env fb word cache))"
  using measure_segments_ok[OF assms, of "[content word]" 0] assms
  by (simp_all add: token_width_def token_w_def measureWithCache_def)

lemma scan_view_new_line:
  "scan_view s = scan_view s' \<Longrightarrow> scan_view (new_line a b c s) = scan_view (new_line a b c s')"
  by (simp add: scan_view_def new_line_def)

lemma scan_view_step_record:
  "scan_view s = scan_view s' \<Longrightarrow> scan_view (step_record w j s) = scan_view (step_record w j s')"
  by (simp add: scan_view_def step_record_def Let_def)

lemma scan_view_break_word:
  "scan_view s = scan_view s' \<Longrightarrow>
   scan_view (step_break_word env word s) = scan_view (step_break_word env word s')"
  by (simp add: scan_view_def step_break_word_def Let_def new_line_def)

lemma cache_frame [simp]:
  "wordWidthCache (new_line a b c s) = wordWidthCache s"
  "wordWidthCache (step_record w j s) = wordWidthCache s"
  "wordWidthCache (step_break_word env word s) = wordWidthCache s"
  by (simp_all add: new_line_def step_record_def step_break_word_def Let_def)


lemma scan_view_eqD:
  assumes "scan_view s = scan_view s'"
  shows "words s = words s'" "lineWidths s = lineWidths s'"
    "lineSegmentNumber s = lineSegmentNumber s'" "m_i s = m_i s'" "m_lines s = m_lines s'"
    "remainingSpace s = remainingSpace s'" "remainingSpaceWidth s = remainingSpaceWidth s'"
    "currentWidth s = currentWidth s'" "maxWidth s = maxWidth s'" "lineIndex s = lineIndex s'"
    "m_height s = m_height s'" "currentLineHeight s = currentLineHeight s'"
    "currentBaselineOffset s = currentBaselineOffset s'"
  using assms by (simp_all add: scan_view_def)

lemma scan_view_step_wrap:
  "scan_view s = scan_view s' \<Longrightarrow>
   scan_view (step_wrap env width fb word w j s) = scan_view (step_wrap env width fb word w j s')"
  by (simp add: scan_view_def step_wrap_def new_line_def step_record_def Let_def)

lemma scan_view_step_fit:
  "scan_view s = scan_view s' \<Longrightarrow>
   scan_view (step_fit env word w j s) = scan_view (step_fit env word w j s')"
  by (simp add: scan_view_def step_fit_def step_record_def Let_def)

lemma scan_view_step_place:
  assumes "scan_view s = scan_view s'"
  shows "scan_view (step_place env width fb word w s) = scan_view (step_place env width fb word w s')"
proof -
  note e = scan_view_eqD[OF assms]
  define J where "J = (currentWidth s' = 0 \<or> remainingSpaceWidth s' \<noteq> 0)"
  define B where "B =
     (m_i s' \<noteq> 0
      \<and> (remainingSpaceWidth s' \<noteq> 0 \<or> indexOf '',.!?:-@)>]}%#'' (to_str (prop0 word)) < 0)
      \<and> js_gt (Num (currentWidth s' + remainingSpaceWidth s' + w)) width
      \<and> whiteSpace env \<noteq> ''nowrap'' \<and> whiteSpace env \<noteq> ''pre'')"
  define A where "A = (isBreakWord env \<and> js_gt (Num w) width \<and> (currentWidth s' = 0 \<or> B \<or> fb))"
  have 1: "step_place env width fb word w s =
      (if A then step_break_word env word s
       else if fb \<or> B then step_wrap env width fb word w J s else step_fit env word w J s)"
    unfolding step_place_def Let_def A_def B_def J_def e by (rule refl)
  have 2: "step_place env width fb word w s' =
      (if A then step_break_word env word s'
       else if fb \<or> B then step_wrap env width fb word w J s' else step_fit env word w J s')"
    unfolding step_place_def Let_def A_def B_def J_def by (rule refl)
  show ?thesis
    unfolding 1 2
    by (simp add: scan_view_break_word[OF assms] scan_view_step_wrap[OF assms]
          scan_view_step_fit[OF assms])
qed

lemma step_prepare_ok:
  assumes v: "scan_view s = scan_view s'"
    and c: "cache_ok env (wordWidthCache s)" and c': "cache_ok env (wordWidthCache s')"
  shows "fst (step_prepare env fb word s) = fst (step_prepare env fb word s')"
    and "scan_view (snd (step_prepare env fb word s)) = scan_view (snd (step_prepare env fb word s'))"
    and "cache_ok env (wordWidthCache (snd (step_prepare env fb word s)))"
  using token_width_ok[OF c, of fb word] token_width_ok[OF c', of fb word] scan_view_eqD[OF v]
  by (simp_all add: step_prepare_def Let_def case_prod_beta scan_view_def)

lemma cache_step_place [simp]:
  "wordWidthCache (step_place env width fb word w s) = wordWidthCache s"
  by (simp add: step_place_def step_wrap_def step_fit_def Let_def)

lemma measure_step_view:
  assumes v: "scan_view s = scan_view s'"
    and c: "cache_ok env (wordWidthCache s)" and c': "cache_ok env (wordWidthCache s')"
  shows "scan_view (measure_step env width s) = scan_view (measure_step env width s')"
    and "cache_ok env (wordWidthCache (measure_step env width s))"
proof -
  let ?fb = "shouldKeepLinebreak env \<and> content (words s ! m_i s) = LF"
  let ?word = "words s ! m_i s"
  have same: "(shouldKeepLinebreak env \<and> content (words s' ! m_i s') = LF) = ?fb"
    "words s' ! m_i s' = ?word"
    using scan_view_eqD[OF v] by simp_all
  have sv: "scan_view (step_visible env width ?fb ?word s) = scan_view (step_visible env width ?fb ?word s')"
    unfolding step_visible_alt step_prepare_ok(1)[OF v c c', of ?fb ?word]
    by (rule scan_view_step_place[OF step_prepare_ok(2)[OF v c c']])
  have upd: "scan_view (a\<lparr> m_i := m_i a + 1 \<rparr>) = scan_view (b\<lparr> m_i := m_i b + 1 \<rparr>)"
    if "scan_view a = scan_view b" for a b :: MeasureState
    using that by (simp add: scan_view_def)
  show "scan_view (measure_step env width s) = scan_view (measure_step env width s')"
    unfolding measure_step_visible same using upd[OF sv] scan_view_eqD(4)[OF v]
    by (simp add: m_i_step_visible)
  show "cache_ok env (wordWidthCache (measure_step env width s))"
    unfolding measure_step_visible
    by (simp add: step_visible_alt step_prepare_ok(3)[OF v c c'])
qed


lemma measure_loop_simulation:
  assumes run: "measure_loop env width s = Some t"
    and rel: "R s s'"
    and step: "\<And>a b. R a b \<Longrightarrow> m_i a < length (words a) \<Longrightarrow>
                 R (measure_step env width a) (measure_step env width b)"
    and cond: "\<And>a b. R a b \<Longrightarrow> (m_i a < length (words a)) = (m_i b < length (words b))"
  shows "\<exists>t'. measure_loop env width s' = Some t' \<and> R t t'"
proof -
  let ?P = "\<lambda>e w a y. e = env \<longrightarrow> w = width \<longrightarrow>
              (\<forall>b. R a b \<longrightarrow> (\<exists>t'. measure_loop env width b = Some t' \<and> R y t'))"
  have "?P env width s t"
  proof (rule measure_loop.raw_induct[where P = ?P, OF _ run])
    fix f e w a y
    assume IH: "\<And>e w a y. f e w a = Some y \<Longrightarrow> ?P e w a y"
      and eq: "(if m_i a < length (words a) then f e w (measure_step e w a) else Some a) = Some y"
    show "?P e w a y"
    proof (intro impI allI)
      fix b
      assume e: "e = env" and w: "w = width" and r: "R a b"
      show "\<exists>t'. measure_loop env width b = Some t' \<and> R y t'"
      proof (cases "m_i a < length (words a)")
        case True
        with eq have "f e w (measure_step e w a) = Some y" by simp
        from IH[OF this] e w step[OF r True]
        obtain t' where "measure_loop env width (measure_step env width b) = Some t'" and "R y t'"
          by blast
        moreover from cond[OF r] True have "m_i b < length (words b)" by simp
        ultimately show ?thesis by (subst measure_loop.simps) auto
      next
        case False
        with eq have "y = a" by simp
        moreover from cond[OF r] False have "\<not> m_i b < length (words b)" by simp
        then have "measure_loop env width b = Some b" by (subst measure_loop.simps) simp
        ultimately show ?thesis using r by simp
      qed
    qed
  qed
  with rel show ?thesis by simp
qed

lemma same_scan_step:
  assumes "same_scan env a b"
  shows "same_scan env (measure_step env width a) (measure_step env width b)"
  using assms measure_step_view[of a b env width] measure_step_view[of b a env width]
  by (simp add: same_scan_def)

lemma measure_run_same_words:
  assumes w: "words sh' = words sh"
    and c: "cache_ok env (wordWidthCache sh)" and c': "cache_ok env (wordWidthCache sh')"
    and run: "measure_run env width sh = Some st"
  shows "\<exists>st'. measure_run env width sh' = Some st'
           \<and> maxWidth st' = maxWidth st \<and> m_height st' = m_height st
           \<and> words st' = words st \<and> cache_ok env (wordWidthCache st)"
proof -
  from run obtain s where loop: "measure_loop env width (measure_init sh) = Some s"
    and st: "st = measure_finish s"
    by (auto simp: measure_run_def)
  have init: "same_scan env (measure_init sh) (measure_init sh')"
    using w c c' by (simp add: same_scan_def scan_view_def measure_init_def)
  have "\<exists>t'. measure_loop env width (measure_init sh') = Some t' \<and> same_scan env s t'"
  proof (rule measure_loop_simulation[where R = "same_scan env", OF loop init])
    fix a b assume "same_scan env a b"
    then show "(m_i a < length (words a)) = (m_i b < length (words b))"
      by (simp add: same_scan_def scan_view_def)
  qed (rule same_scan_step)
  then obtain t' where loop': "measure_loop env width (measure_init sh') = Some t'"
    and rel: "same_scan env s t'" by blast
  from rel have "scan_view (measure_finish s) = scan_view (measure_finish t')"
    by (simp add: same_scan_def scan_view_def measure_finish_def)
  then have "maxWidth (measure_finish t') = maxWidth st" "m_height (measure_finish t') = m_height st"
    "words (measure_finish t') = words st"
    unfolding st by (simp_all add: scan_view_def)
  moreover from rel have "cache_ok env (wordWidthCache st)"
    unfolding st by (simp add: same_scan_def measure_finish_def)
  ultimately show ?thesis using loop' by (simp add: measure_run_def)
qed

lemma truncate_fields [simp]:
  "words (Shared.truncate st) = words st"
  "wordWidthCache (Shared.truncate st) = wordWidthCache st"
  "baselines (Shared.truncate st) = baselines st"
  "lineWidths (Shared.truncate st) = lineWidths st"
  "lineSegmentNumber (Shared.truncate st) = lineSegmentNumber st"
  "wordPositionInLayout (Shared.truncate st) = wordPositionInLayout st"
  by (simp_all add: Shared.truncate_def)

text \<open>The min-width scan, which fills the cache before the first measurement call,
  keeps the cache to the engine's answers.\<close>

lemma cache_ok_scan_word:
  "cache_ok env (scan_cache st) \<Longrightarrow> cache_ok env (scan_cache (scan_word env word brk st))"
  using measure_segments_ok[of env "scan_cache st" "remainingSegment st" 0]
  by (simp add: scan_word_def measureWithCache_def Let_def case_prod_beta)

lemma cache_ok_scan_words:
  "cache_ok env (scan_cache st) \<Longrightarrow> scan_words env ws st = Inr st' \<Longrightarrow> cache_ok env (scan_cache st')"
  by (induction ws arbitrary: st) (auto split: sum.splits intro: cache_ok_scan_word)

lemma cache_ok_min_width_scan:
  assumes "cache_ok env cache" and "min_width_scan env ws cache = Inr (mw, cache')"
  shows "cache_ok env cache'"
proof -
  let ?init = "\<lparr> minWidth = 0, remainingSegment = [], extraWidth = 0, scan_cache = cache \<rparr>"
  from assms(2) obtain st where st: "scan_words env ws ?init = Inr st"
    and c: "cache' = snd (measureWithCache env (remainingSegment st) (scan_cache st))"
    by (auto simp: min_width_scan_def Let_def case_prod_beta split: sum.splits)
  from cache_ok_scan_words[OF _ st] assms(1) have "cache_ok env (scan_cache st)" by simp
  from measure_segments_ok[OF this, of "remainingSegment st" 0] c
  show ?thesis by (simp add: measureWithCache_def)
qed

text \<open>The pair a measurement call returns depends on the available width and on the
  word sequence the call starts with only: not on the baselines, word positions or
  cached widths earlier calls left, nor on line arrays they left.\<close>

lemma measure_result_depends_on_words:
  assumes "words sh' = words sh"
    and "cache_ok env (wordWidthCache sh)" and "cache_ok env (wordWidthCache sh')"
  shows "map_option fst (measureFunc env width sh') = map_option fst (measureFunc env width sh)"
proof (cases "measure_run env width sh")
  case None
  have "measure_run env width sh' = None"
  proof (rule ccontr)
    assume "measure_run env width sh' \<noteq> None"
    then obtain st' where "measure_run env width sh' = Some st'" by auto
    from measure_run_same_words[OF assms(1)[symmetric] assms(3) assms(2) this] None
    show False by auto
  qed
  with None show ?thesis by (simp add: measureFunc_def)
next
  case (Some st)
  from measure_run_same_words[OF assms Some] Some
  show ?thesis by (auto simp: measureFunc_def)
qed

text \<open>
  Claim C8: calling the measurement callback twice with the same available width, with
  the word sequence unchanged between the calls, returns an identical
  \<^verbatim>\<open>{ width, height }\<close> pair both times.

  The word sequence is the list the callback scans, \<^verbatim>\<open>words\<close>; it is unchanged when the
  second call starts with the list the first call started with. Then the second call
  returns, and returns the pair of the first.
\<close>

theorem measure_same_result:
  assumes "cache_ok env (wordWidthCache sh)"
    and "measureFunc env width sh = Some (r1, sh1)"
    and "words sh1 = words sh"
  shows "\<exists>sh2. measureFunc env width sh1 = Some (r1, sh2)"
proof -
  from assms(2) obtain st where run: "measure_run env width sh = Some st"
    and r1: "r1 = (maxWidth st, m_height st)" and sh1: "sh1 = Shared.truncate st"
    by (auto simp: measureFunc_def)
  from measure_run_same_words[OF refl assms(1) assms(1) run]
  have c1: "cache_ok env (wordWidthCache sh1)" by (auto simp: sh1)
  from measure_run_same_words[OF assms(3) assms(1) c1 run] r1
  show ?thesis by (auto simp: measureFunc_def)
qed

theorem measure_same_result_witness:
  "cache_ok demo_env (wordWidthCache (fresh [''ab'', '' '', ''cd'']))
   \<and> (\<exists>sh1 sh2.
         measureFunc demo_env (Num 30) (fresh [''ab'', '' '', ''cd'']) = Some ((30, 24), sh1)
         \<and> words sh1 = words (fresh [''ab'', '' '', ''cd''])
         \<and> measureFunc demo_env (Num 30) sh1 = Some ((30, 24), sh2))"
proof -
  have c: "cache_ok demo_env (wordWidthCache (fresh [''ab'', '' '', ''cd'']))"
    by (simp add: cache_ok_def fresh_def)
  have "map_option (\<lambda>(r, sh). (r, words sh))
          (measureFunc demo_env (Num 30) (fresh [''ab'', '' '', ''cd'']))
        = Some ((30, 24), words (fresh [''ab'', '' '', ''cd'']))"
    by code_simp
  then obtain sh1 where
    m: "measureFunc demo_env (Num 30) (fresh [''ab'', '' '', ''cd'']) = Some ((30, 24), sh1)"
    and w: "words sh1 = words (fresh [''ab'', '' '', ''cd''])"
    by (cases "measureFunc demo_env (Num 30) (fresh [''ab'', '' '', ''cd''])") auto
  from measure_same_result[OF c m w] obtain sh2 where
    "measureFunc demo_env (Num 30) sh1 = Some ((30, 24), sh2)" by blast
  with c m w show ?thesis by blast
qed

text \<open>A call that splits a token changes the word sequence itself, and the next call
  then scans another sequence: for the tokens \<open>a\<close> and \<open>WWW\<close> with break-word, two calls
  at width 25 return a height of 36 and then of 24.\<close>

lemma splitting_call_changes_words:
  "measure_twice_results bw_env (Num 25) (Num 25) (fresh [''a'', ''WWW''])
     = Some ((25, 36), (25, 24))
   \<and> map_option (map content \<circ> words \<circ> snd)
       (measureFunc bw_env (Num 25) (fresh [''a'', ''WWW'']))
     = Some [''a'', [], ''W'', ''W'', ''W'']"
  by code_simp

end
